theory Spec2Isabelle
  imports Main "HOL-Library.Word" "HOL-Library.Char_ord" "HOL-Library.List_Lexorder"
    "HOL-Library.Product_Lexorder"
begin

unbundle bit_operations_syntax

chapter \<open>The Certificate Authority core of Boulder: model\<close>

text \<open>
  A shallow embedding of \<^verbatim>\<open>ca/ca.go\<close> and of the \<^verbatim>\<open>identifier\<close> package.
  A Go \<^verbatim>\<open>[]byte\<close> is a list of 8-bit words; a nil slice and an empty slice are both the
  empty list (the code only ever asks for their length). A Go \<^verbatim>\<open>string\<close> is a list of
  bytes, written as a \<^typ>\<open>string\<close>; \<^verbatim>\<open><\<close> on Go strings is the bytewise
  lexicographic order, which is the order of \<^typ>\<open>string\<close> here.
\<close>

type_synonym byte = "8 word"

section \<open>Package identifier\<close>

type_synonym IdentifierType = string

definition TypeDNS :: IdentifierType where
  "TypeDNS = ''dns''"

definition TypeIP :: IdentifierType where
  "TypeIP = ''ip''"

record ACMEIdentifier =
  Type :: IdentifierType
  Value :: string

definition NewDNS :: "string \<Rightarrow> ACMEIdentifier" where
  "NewDNS domain = \<lparr>Type = TypeDNS, Value = domain\<rparr>"

text \<open>
  \<^verbatim>\<open>strings.ToLower\<close> of the Go standard library maps the upper-case letters of Unicode
  to lower case and rewrites every byte that is not valid UTF-8. It is not modelled:
  \<^verbatim>\<open>Normalize\<close> and the functions that call it take it as the parameter \<open>toLower\<close>, and a
  theorem that needs a property of it says so.
\<close>

text \<open>The comparison function that \<^verbatim>\<open>Normalize\<close> hands to \<^verbatim>\<open>slices.SortFunc\<close>.\<close>

definition identCmp :: "ACMEIdentifier \<Rightarrow> ACMEIdentifier \<Rightarrow> int" where
  "identCmp a b =
     (if Type a = Type b then
        (if Value a = Value b then 0
         else if Value a < Value b then -1
         else 1)
      else if Type a = ''dns'' \<and> Type b = ''ip'' then -1
      else 1)"

text \<open>
  \<^verbatim>\<open>slices.SortFunc\<close> of the Go standard library. For a slice of at most 12 elements it is
  this insertion sort:
  \<^verbatim>\<open>
  for i := a + 1; i < b; i++ {
      for j := i; j > a && (cmp(data[j], data[j-1]) < 0); j-- {
          data[j], data[j-1] = data[j-1], data[j]
      }
  }
  \<close>
  \<open>insertBack cmp x below\<close> is the inner loop: \<open>below\<close> holds the slots below \<open>i\<close>, the
  nearest one first (\<open>data[i-1]\<close>, \<open>data[i-2]\<close>, ...), and \<open>x\<close> moves down past every
  element it compares less than. On longer slices Go sorts by pattern-defeating quicksort;
  when the comparison is a strict weak ordering under which only identical elements
  compare equal, every sorting algorithm returns the same slice, and the insertion sort
  stands for it.
\<close>

fun insertBack :: "('a \<Rightarrow> 'a \<Rightarrow> int) \<Rightarrow> 'a \<Rightarrow> 'a list \<Rightarrow> 'a list" where
  "insertBack cmp x [] = [x]"
| "insertBack cmp x (y # ys) =
     (if cmp x y < 0 then y # insertBack cmp x ys else x # y # ys)"

definition SortFunc :: "('a \<Rightarrow> 'a \<Rightarrow> int) \<Rightarrow> 'a list \<Rightarrow> 'a list" where
  "SortFunc cmp data = rev (foldl (\<lambda>below x. insertBack cmp x below) [] data)"

text \<open>
  \<^verbatim>\<open>slices.Compact\<close>: every run of consecutive equal elements is replaced by its first
  element.
\<close>

fun Compact :: "'a list \<Rightarrow> 'a list" where
  "Compact [] = []"
| "Compact [x] = [x]"
| "Compact (x # y # ys) = (if x = y then Compact (y # ys) else x # Compact (y # ys))"

text \<open>
  \<^verbatim>\<open>Normalize\<close> lowercases every value in place, sorts the slice in place and returns the
  compacted slice. The model returns that slice.
\<close>

definition Normalize :: "(string \<Rightarrow> string) \<Rightarrow> ACMEIdentifier list \<Rightarrow> ACMEIdentifier list" where
  "Normalize toLower idents =
     Compact (SortFunc identCmp (map (\<lambda>i. i\<lparr>Value := toLower (Value i)\<rparr>) idents))"

section \<open>Errors\<close>

text \<open>
  Modelled from the spec: the error kinds of the \<^verbatim>\<open>errors\<close> package of the repository
  (\<^verbatim>\<open>berrors\<close>), which is not among the sources. The spec names \<^emph>\<open>Malformed\<close>,
  \<^emph>\<open>BadPublicKey\<close>, \<^emph>\<open>NotFound\<close> and \<^emph>\<open>InternalServerError\<close>; every other kind is
  \<open>OtherErrorType\<close>.
\<close>

datatype ErrorType = InternalServer | Malformed | NotFound | BadPublicKey | OtherErrorType nat

text \<open>
  What the code can observe of a Go \<^verbatim>\<open>error\<close>: its message (\<^verbatim>\<open>Error()\<close>) and what
  \<^verbatim>\<open>errors.Is\<close> and \<^verbatim>\<open>errors.As\<close> find along its \<^verbatim>\<open>Unwrap\<close> chain: a Boulder error of
  some kind, the sentinel \<^verbatim>\<open>linter.ErrLinting\<close>, a \<^verbatim>\<open>pkcs11.Error\<close>.
\<close>

datatype errTarget = BoulderErrorType ErrorType | ErrLinting | Pkcs11Error

datatype error = GoError (Error: string) (chain: "errTarget list")

definition errors_New :: "string \<Rightarrow> error" where
  "errors_New text = GoError text []"

definition Errorf :: "string \<Rightarrow> error" where
  \<comment> \<open>\<^verbatim>\<open>fmt.Errorf\<close> with no \<^verbatim>\<open>%w\<close>: the argument is the formatted message\<close>
  "Errorf text = GoError text []"

definition Errorf_w :: "string \<Rightarrow> error \<Rightarrow> error" where
  \<comment> \<open>\<^verbatim>\<open>fmt.Errorf("<prefix>%w", err)\<close>: the message is extended, the chain is kept\<close>
  "Errorf_w prefix err = GoError (prefix @ Error err) (chain err)"

definition InternalServerError :: "string \<Rightarrow> error" where
  \<comment> \<open>\<^verbatim>\<open>berrors.InternalServerError\<close>, on the formatted message\<close>
  "InternalServerError detail = GoError detail [BoulderErrorType InternalServer]"

definition errors_Is :: "error \<Rightarrow> errTarget \<Rightarrow> bool" where
  "errors_Is err target = (target \<in> set (chain err))"

text \<open>The verb \<^verbatim>\<open>%x\<close> on a byte slice, and \<^verbatim>\<open>hex.EncodeToString\<close>: two lower-case digits a byte.\<close>

definition hexDigit :: "nat \<Rightarrow> char" where
  "hexDigit n = ''0123456789abcdef'' ! (n mod 16)"

definition hex :: "byte list \<Rightarrow> string" where
  "hex bs = concat (map (\<lambda>b. [hexDigit (unat b div 16), hexDigit (unat b mod 16)]) bs)"

definition dquote :: char where
  \<comment> \<open>the double quote of a format string\<close>
  "dquote = CHR 0x22"

text \<open>
  Modelled from the spec: \<^verbatim>\<open>core.IsAnyNilOrZero\<close> is not among the sources. The spec asks
  that nil inputs be an error and that zero fields be rejected: a byte slice is nil or
  zero when it has no bytes, an integer when it is 0.
\<close>

definition IsNilOrZero_bytes :: "byte list \<Rightarrow> bool" where
  "IsNilOrZero_bytes bs = (bs = [])"

definition IsNilOrZero_int :: "int \<Rightarrow> bool" where
  "IsNilOrZero_int n = (n = 0)"

section \<open>The TBS determinism check\<close>

text \<open>
  \<^verbatim>\<open>cryptobyte.String.ReadASN1\<close> of \<^verbatim>\<open>golang.org/x/crypto\<close>: it reads one DER element
  with a one-byte tag from the front of the string and hands out its contents. Lengths are
  \<^verbatim>\<open>uint32\<close>, here natural numbers with the wrap-around of the one addition that can
  overflow written out. (\<^verbatim>\<open>int\<close> has 64 bits, so \<^verbatim>\<open>int(length) < 0\<close> never holds.)
\<close>

definition readUnsigned :: "byte list \<Rightarrow> nat" where
  \<comment> \<open>big-endian, at most four bytes\<close>
  "readUnsigned v = foldl (\<lambda>result b. result * 256 + unat b) 0 v"

definition readASN1 :: "byte list \<Rightarrow> (byte \<times> byte list \<times> byte list) option" where
  \<comment> \<open>the tag, the contents and the rest of the string\<close>
  "readASN1 s =
     (if length s < 2 then None
      else
        let tag = s ! 0; lenByte = s ! 1 in
        if tag AND 0x1f = 0x1f then None
        else if lenByte AND 0x80 = 0 then
          (let length' = unat lenByte + 2; headerLen = 2 in
           if length s < length' then None
           else Some (tag, drop headerLen (take length' s), drop length' s))
        else
          (let lenLen = unat (lenByte AND 0x7f) in
           if lenLen = 0 \<or> lenLen > 4 \<or> length s < 2 + lenLen then None
           else
             let len32 = readUnsigned (take lenLen (drop 2 s)) in
             if len32 < 128 then None
             else if len32 div 2 ^ ((lenLen - 1) * 8) = 0 then None
             else
               let headerLen = 2 + lenLen in
               if (headerLen + len32) mod 2 ^ 32 < len32 then None
               else
                 let length' = headerLen + len32 in
                 if length s < length' then None
                 else Some (tag, drop headerLen (take length' s), drop length' s)))"

definition ReadASN1 :: "byte list \<Rightarrow> byte \<Rightarrow> (byte list \<times> byte list) option" where
  "ReadASN1 s tag =
     (case readASN1 s of
        None \<Rightarrow> None
      | Some (t, out, rest) \<Rightarrow> if t \<noteq> tag then None else Some (out, rest))"

definition SEQUENCE :: byte where
  \<comment> \<open>\<^verbatim>\<open>cryptobyte_asn1.SEQUENCE\<close>: tag 16, constructed\<close>
  "SEQUENCE = 0x30"

definition extractTBSCertBytes :: "byte list \<Rightarrow> error + byte list" where
  "extractTBSCertBytes inputDERBytes =
     (case ReadASN1 inputDERBytes SEQUENCE of
        None \<Rightarrow> Inl (errors_New ''malformed certificate'')
      | Some (input, _) \<Rightarrow>
          (case ReadASN1 input SEQUENCE of
             None \<Rightarrow> Inl (errors_New ''malformed tbs certificate'')
           | Some (tbs, _) \<Rightarrow>
               if tbs = [] then Inl (errors_New ''parsed RawTBSCertificate field was empty'')
               else Inr tbs))"

definition tbsCertIsDeterministic :: "byte list \<Rightarrow> byte list \<Rightarrow> error option" where
  \<comment> \<open>\<open>None\<close> is Go's nil error\<close>
  "tbsCertIsDeterministic lintCertBytes leafCertBytes =
     (if IsNilOrZero_bytes lintCertBytes \<or> IsNilOrZero_bytes leafCertBytes
      then Some (Errorf ''lintCertBytes of leafCertBytes were nil'')
      else
        case extractTBSCertBytes lintCertBytes of
          Inl err \<Rightarrow> Some (Errorf_w ''while extracting lint TBS cert: '' err)
        | Inr lintRawTBSCert \<Rightarrow>
            (case extractTBSCertBytes leafCertBytes of
               Inl err \<Rightarrow> Some (Errorf_w ''while extracting leaf TBS cert: '' err)
             | Inr leafRawTBSCert \<Rightarrow>
                 if lintRawTBSCert \<noteq> leafRawTBSCert
                 then Some (Errorf
                   (''mismatch between lintCert and leafCert RawTBSCertificate DER bytes: ''
                    @ [dquote] @ hex lintRawTBSCert @ [dquote] @ '' != ''
                    @ [dquote] @ hex leafRawTBSCert @ [dquote]))
                 else None))"

section \<open>Issuers, profiles and the CA object\<close>

text \<open>\<^verbatim>\<open>x509.PublicKeyAlgorithm\<close> of the Go standard library, and its \<^verbatim>\<open>String\<close> method.\<close>

datatype PublicKeyAlgorithm = UnknownPublicKeyAlgorithm | RSA | DSA | ECDSA | Ed25519

fun PublicKeyAlgorithm_String :: "PublicKeyAlgorithm \<Rightarrow> string" where
  "PublicKeyAlgorithm_String UnknownPublicKeyAlgorithm = ''0''"
| "PublicKeyAlgorithm_String RSA = ''RSA''"
| "PublicKeyAlgorithm_String DSA = ''DSA''"
| "PublicKeyAlgorithm_String ECDSA = ''ECDSA''"
| "PublicKeyAlgorithm_String Ed25519 = ''Ed25519''"

text \<open>A \<^verbatim>\<open>time.Time\<close> is an instant, counted in nanoseconds; \<^verbatim>\<open>Before\<close> is \<open><\<close>.\<close>

type_synonym Time = int

text \<open>
  Modelled from the spec: \<^verbatim>\<open>issuance.Issuer\<close> is not among the sources. The spec gives an
  issuer a name, a stable 64-bit NameID, a key type, an active flag and the NotAfter of its
  own certificate; the code reads them through \<^verbatim>\<open>Name()\<close>, \<^verbatim>\<open>NameID()\<close>, \<^verbatim>\<open>KeyType()\<close>,
  \<^verbatim>\<open>IsActive()\<close> and \<^verbatim>\<open>Cert.NotAfter\<close>.
\<close>

type_synonym NameID = int

record Issuer =
  Name :: string
  NameID :: NameID
  KeyType :: PublicKeyAlgorithm
  IsActive :: bool
  Cert_NotAfter :: Time

record issuerMaps =
  byAlg :: "PublicKeyAlgorithm \<rightharpoonup> Issuer list"
  byNameID :: "NameID \<rightharpoonup> Issuer"

text \<open>The verb \<^verbatim>\<open>%d\<close> on an integer.\<close>

fun decimal :: "nat \<Rightarrow> string" where
  "decimal n =
     (if n < 10 then [char_of (48 + n)] else decimal (n div 10) @ [char_of (48 + n mod 10)])"

declare decimal.simps [simp del]

definition formatInt :: "int \<Rightarrow> string" where
  "formatInt i = (if i < 0 then ''-'' @ decimal (nat (- i)) else decimal (nat i))"

text \<open>
  The loop of \<^verbatim>\<open>makeIssuerMaps\<close> over the issuers, on the two maps it fills. Reading a key
  that a Go map lacks gives the nil slice, to which \<^verbatim>\<open>append\<close> adds.
\<close>

fun makeIssuerMaps_loop ::
  "Issuer list \<Rightarrow> (PublicKeyAlgorithm \<rightharpoonup> Issuer list) \<Rightarrow> (NameID \<rightharpoonup> Issuer)
   \<Rightarrow> error + (PublicKeyAlgorithm \<rightharpoonup> Issuer list) \<times> (NameID \<rightharpoonup> Issuer)" where
  "makeIssuerMaps_loop [] issuersByAlg issuersByNameID = Inr (issuersByAlg, issuersByNameID)"
| "makeIssuerMaps_loop (issuer # rest) issuersByAlg issuersByNameID =
     (if issuersByNameID (NameID issuer) \<noteq> None
      then Inl (Errorf (''two issuers with same NameID '' @ formatInt (NameID issuer)
                        @ '' ('' @ Name issuer @ '') configured''))
      else
        let issuersByNameID' = issuersByNameID(NameID issuer \<mapsto> issuer);
            issuersByAlg' =
              (if IsActive issuer
               then issuersByAlg(KeyType issuer \<mapsto>
                      (case issuersByAlg (KeyType issuer) of None \<Rightarrow> [] | Some l \<Rightarrow> l) @ [issuer])
               else issuersByAlg)
        in makeIssuerMaps_loop rest issuersByAlg' issuersByNameID')"

definition makeIssuerMaps :: "Issuer list \<Rightarrow> error + issuerMaps" where
  "makeIssuerMaps issuers =
     (case makeIssuerMaps_loop issuers Map.empty Map.empty of
        Inl err \<Rightarrow> Inl err
      | Inr (issuersByAlg, issuersByNameID) \<Rightarrow>
          if (case issuersByAlg ECDSA of None \<Rightarrow> True | Some i \<Rightarrow> length i = 0)
          then Inl (errors_New ''no ECDSA issuers configured'')
          else if (case issuersByAlg RSA of None \<Rightarrow> True | Some i \<Rightarrow> length i = 0)
          then Inl (errors_New ''no RSA issuers configured'')
          else Inr \<lparr>byAlg = issuersByAlg, byNameID = issuersByNameID\<rparr>)"

text \<open>
  \<^verbatim>\<open>issuance.Profile\<close> and \<^verbatim>\<open>issuance.ProfileConfig\<close> are outside the sources and the
  code only passes them on: each is an opaque handle.
\<close>

datatype Profile = Profile nat

datatype ProfileConfig = ProfileConfig nat

record certProfileWithID =
  name :: string
  profile :: Profile

text \<open>
  \<^verbatim>\<open>makeCertificateProfilesMap\<close>. The configured profiles are a Go map; the list holds its
  entries in the order in which this run's \<^verbatim>\<open>range\<close> visits them. \<open>NewProfile\<close> stands for
  \<^verbatim>\<open>issuance.NewProfile\<close>.
\<close>

fun makeCertificateProfilesMap_loop ::
  "(ProfileConfig \<Rightarrow> error + Profile) \<Rightarrow> (string \<times> ProfileConfig) list
   \<Rightarrow> (string \<rightharpoonup> certProfileWithID) \<Rightarrow> error + (string \<rightharpoonup> certProfileWithID)" where
  "makeCertificateProfilesMap_loop NewProfile [] profilesByName = Inr profilesByName"
| "makeCertificateProfilesMap_loop NewProfile ((name', profileConfig) # rest) profilesByName =
     (case NewProfile profileConfig of
        Inl err \<Rightarrow> Inl err
      | Inr profile' \<Rightarrow>
          makeCertificateProfilesMap_loop NewProfile rest
            (profilesByName(name' \<mapsto> \<lparr>name = name', profile = profile'\<rparr>)))"

definition makeCertificateProfilesMap ::
  "(ProfileConfig \<Rightarrow> error + Profile) \<Rightarrow> (string \<times> ProfileConfig) list
   \<Rightarrow> error + (string \<rightharpoonup> certProfileWithID)" where
  "makeCertificateProfilesMap NewProfile profiles =
     (if length profiles \<le> 0 then Inl (Errorf ''must pass at least one certificate profile'')
      else makeCertificateProfilesMap_loop NewProfile profiles Map.empty)"

section \<open>Requests, collaborators and the observed state\<close>

text \<open>
  The parts of the parsed CSR and of the parsed precertificate that the code reads
  (\<^verbatim>\<open>x509.CertificateRequest\<close>, \<^verbatim>\<open>x509.Certificate\<close>). Keys, tokens and SCTs are opaque
  to the CA; a \<^verbatim>\<open>net.IP\<close> is a byte slice.
\<close>

datatype PublicKey = Key "byte list"

datatype IssuanceToken = Token nat

datatype SignedCertificateTimestamp = SCT "byte list"

type_synonym IP = "byte list"

record CertificateRequest =
  csr_Raw :: "byte list"
  csr_PublicKeyAlgorithm :: PublicKeyAlgorithm
  csr_PublicKey :: PublicKey
  csr_Subject_CommonName :: string
  csr_DNSNames :: "string list"
  csr_IPAddresses :: "IP list"

record Certificate =
  SerialNumber :: int
  cert_Issuer :: string  \<comment> \<open>the issuer's name as \<^verbatim>\<open>%s\<close> prints it\<close>

record IssueCertificateRequest =
  Csr :: "byte list"
  RegistrationID :: int
  OrderID :: int
  CertProfileName :: string

text \<open>
  \<^verbatim>\<open>issuance.IssuanceRequest\<close>: the fields the CA fills in, and the SCT list that
  \<^verbatim>\<open>issuance.RequestFromPrecert\<close> adds for the final certificate.
\<close>

record IssuanceRequest =
  PublicKey :: PublicKey
  SubjectKeyId :: "byte list"
  Serial :: "byte list"
  DNSNames :: "string list"
  IPAddresses :: "IP list"
  CommonName :: string
  IncludeCTPoison :: bool
  NotBefore :: Time
  NotAfter :: Time
  sctList :: "SignedCertificateTimestamp list"

record AddSerialRequest =
  sr_Serial :: string
  sr_RegID :: int
  sr_Created :: Time
  sr_Expires :: Time

record AddCertificateRequest =
  Der :: "byte list"
  RegID :: int
  Issued :: Time
  IssuerNameID :: int
  OcspNotReady :: bool

text \<open>
  Every call that leaves the CA is observed as an event, with what was passed and what
  came back: the five calls on the Storage Authority, the SCT provider, and the issuer's
  \<^verbatim>\<open>Prepare\<close> and \<^verbatim>\<open>Issue\<close> (the HSM signing operation).
\<close>

datatype event =
    EvAddSerial AddSerialRequest "error option"
  | EvAddPrecertificate AddCertificateRequest "error option"
  | EvSetCertificateStatusReady string "error option"
  | EvGetCertificate string "error option"
  | EvAddCertificate AddCertificateRequest "error option"
  | EvGetSCTs "byte list" "error + byte list list"
  | EvPrepare Issuer Profile IssuanceRequest "error + byte list \<times> IssuanceToken"
  | EvIssue Issuer IssuanceToken "error + byte list"

record caMetrics =
  signatureCount :: "string \<times> string \<Rightarrow> nat"  \<comment> \<open>labels: purpose, issuer\<close>
  signErrorCount :: "string \<Rightarrow> nat"  \<comment> \<open>label: type\<close>
  lintErrorCount :: nat
  certificates :: "string \<Rightarrow> nat"  \<comment> \<open>label: profile\<close>

text \<open>
  The state that an issuance runs in: the world outside the CA (database, HSM, clock,
  random sources, CT logs), of which nothing is assumed; the events so far; the metrics.
  Audit logging and tracing spans are left out.
\<close>

record 'w state =
  world :: 'w
  trace :: "event list"
  metrics :: caMetrics

text \<open>The client of the Storage Authority: each call answers and may change the world.\<close>

record 'w StorageAuthorityCertificateClient =
  AddSerial :: "AddSerialRequest \<Rightarrow> 'w \<Rightarrow> error option \<times> 'w"
  AddPrecertificate :: "AddCertificateRequest \<Rightarrow> 'w \<Rightarrow> error option \<times> 'w"
  SetCertificateStatusReady :: "string \<Rightarrow> 'w \<Rightarrow> error option \<times> 'w"
  GetCertificate :: "string \<Rightarrow> 'w \<Rightarrow> error option \<times> 'w"
  AddCertificate :: "AddCertificateRequest \<Rightarrow> 'w \<Rightarrow> error option \<times> 'w"

type_synonym 'w SCTProviderClient = "byte list \<Rightarrow> 'w \<Rightarrow> (error + byte list list) \<times> 'w"

text \<open>
  \<^verbatim>\<open>certificateAuthorityImpl\<close>. A nil \<^verbatim>\<open>sctClient\<close> is \<open>None\<close>. The policy authority and
  the key policy are only handed to \<^verbatim>\<open>csrlib.VerifyCSR\<close> and live in that function below.
\<close>

record 'w certificateAuthorityImpl =
  sa :: "'w StorageAuthorityCertificateClient"
  sctClient :: "'w SCTProviderClient option"
  issuers :: issuerMaps
  certProfiles :: "string \<rightharpoonup> certProfileWithID"
  prefix :: byte
  maxNames :: int
  clk :: "'w \<Rightarrow> Time \<times> 'w"

text \<open>
  What the CA calls outside \<^verbatim>\<open>ca.go\<close> and the \<^verbatim>\<open>identifier\<close> package: functions of the Go
  standard library, of other packages of the repository that are not among the sources, and
  of the issuer. Those that may touch the world take it and return it.
\<close>

record 'w env =
  rand_Read :: "nat \<Rightarrow> 'w \<Rightarrow> (byte list \<times> error option) \<times> 'w"
  mrand_IntN :: "nat \<Rightarrow> 'w \<Rightarrow> nat \<times> 'w"
  SerialToString :: "int \<Rightarrow> string"
  NewProfile :: "ProfileConfig \<Rightarrow> error + Profile"
  GenerateValidity :: "Profile \<Rightarrow> Time \<Rightarrow> 'w \<Rightarrow> (Time \<times> Time) \<times> 'w"
  ParseCertificateRequest :: "byte list \<Rightarrow> error + CertificateRequest"
  VerifyCSR :: "CertificateRequest \<Rightarrow> int \<Rightarrow> 'w \<Rightarrow> error option \<times> 'w"
  MarshalPKIXPublicKey :: "PublicKey \<Rightarrow> error + byte list"
  Unmarshal_BitString :: "byte list \<Rightarrow> error + byte list"
  sha256_Sum256 :: "byte list \<Rightarrow> byte list"
  strings_ToLower :: "string \<Rightarrow> string"
  IP_String :: "IP \<Rightarrow> string"
  ParseIP :: "string \<Rightarrow> IP option"
  CNFromCSR :: "CertificateRequest \<Rightarrow> string"
  Prepare :: "Issuer \<Rightarrow> Profile \<Rightarrow> IssuanceRequest \<Rightarrow> 'w
              \<Rightarrow> (error + byte list \<times> IssuanceToken) \<times> 'w"
  Issue :: "Issuer \<Rightarrow> IssuanceToken \<Rightarrow> 'w \<Rightarrow> (error + byte list) \<times> 'w"
  ParseCertificate :: "byte list \<Rightarrow> error + Certificate"
  cttls_Unmarshal :: "byte list \<Rightarrow> error + SignedCertificateTimestamp"
  IssuerNameID_of :: "Certificate \<Rightarrow> NameID"
  RequestFromPrecert ::
    "Certificate \<Rightarrow> SignedCertificateTimestamp list \<Rightarrow> error + IssuanceRequest"

definition ask :: "('w \<Rightarrow> 'r \<times> 'w) \<Rightarrow> 'w state \<Rightarrow> 'r \<times> 'w state" where
  \<comment> \<open>a call that is not observed\<close>
  "ask f s = (case f (world s) of (r, w') \<Rightarrow> (r, s\<lparr>world := w'\<rparr>))"

definition call :: "('w \<Rightarrow> 'r \<times> 'w) \<Rightarrow> ('r \<Rightarrow> event) \<Rightarrow> 'w state \<Rightarrow> 'r \<times> 'w state" where
  \<comment> \<open>a call that is observed: its event is appended to the trace\<close>
  "call f ev s =
     (case f (world s) of (r, w') \<Rightarrow> (r, s\<lparr>world := w', trace := trace s @ [ev r]\<rparr>))"

definition NewCertificateAuthorityImpl ::
  "'w env \<Rightarrow> 'w StorageAuthorityCertificateClient \<Rightarrow> 'w SCTProviderClient option
   \<Rightarrow> Issuer list \<Rightarrow> (string \<times> ProfileConfig) list \<Rightarrow> byte \<Rightarrow> int
   \<Rightarrow> ('w \<Rightarrow> Time \<times> 'w) \<Rightarrow> error + 'w certificateAuthorityImpl" where
  "NewCertificateAuthorityImpl env sa' sctService boulderIssuers certificateProfiles
       serialPrefix maxNames' clk' =
     (if serialPrefix < 0x01 \<or> serialPrefix > 0x7f
      then Inl (errors_New ''serial prefix must be between 0x01 (1) and 0x7f (127)'')
      else if length boulderIssuers = 0
      then Inl (errors_New ''must have at least one issuer'')
      else
        case makeCertificateProfilesMap (NewProfile env) certificateProfiles of
          Inl err \<Rightarrow> Inl err
        | Inr certProfiles' \<Rightarrow>
            (case makeIssuerMaps boulderIssuers of
               Inl err \<Rightarrow> Inl err
             | Inr issuers' \<Rightarrow>
                 Inr \<lparr>sa = sa', sctClient = sctService, issuers = issuers',
                      certProfiles = certProfiles', prefix = serialPrefix,
                      maxNames = maxNames', clk = clk'\<rparr>))"

section \<open>Serial numbers\<close>

text \<open>
  \<^verbatim>\<open>big.Int\<close>: \<^verbatim>\<open>SetBytes\<close> reads a big-endian unsigned integer, \<^verbatim>\<open>Bytes\<close> writes the
  absolute value big-endian with no leading zero byte.
\<close>

definition SetBytes :: "byte list \<Rightarrow> int" where
  "SetBytes buf = foldl (\<lambda>z b. z * 256 + uint b) 0 buf"

fun natBytes :: "nat \<Rightarrow> byte list" where
  "natBytes n = (if n = 0 then [] else natBytes (n div 256) @ [of_nat (n mod 256)])"

declare natBytes.simps [simp del]

definition Bytes :: "int \<Rightarrow> byte list" where
  "Bytes x = natBytes (nat \<bar>x\<bar>)"

text \<open>
  \<^verbatim>\<open>generateSerialNumber\<close>. The buffer has \<^verbatim>\<open>randBits/8+1\<close> zero bytes; \<^verbatim>\<open>rand.Read\<close> is
  given the slots from 1 on and answers with the bytes it wrote, which overwrite the front of
  those slots, and an error.
\<close>

definition randBits :: nat where
  "randBits = 136"

definition generateSerialNumber ::
  "'w env \<Rightarrow> 'w certificateAuthorityImpl \<Rightarrow> 'w state \<Rightarrow> (error + int) \<times> 'w state" where
  "generateSerialNumber env ca s =
     (let serialBytes = replicate (randBits div 8 + 1) (0 :: byte);
          serialBytes = serialBytes[0 := prefix ca]
      in case ask (rand_Read env (length (drop 1 serialBytes))) s of
           ((written, Some err), s') \<Rightarrow>
             (Inl (InternalServerError (''failed to generate serial: '' @ Error err)), s')
         | ((written, None), s') \<Rightarrow>
             (let n = min (length written) (length (drop 1 serialBytes));
                  serialBytes = take 1 serialBytes @ take n written @ drop (1 + n) serialBytes
              in (Inr (SetBytes serialBytes), s')))"

section \<open>From the CSR to the issuance request\<close>

text \<open>
  \<^verbatim>\<open>generateSKID\<close>: the first 20 bytes of the SHA-256 of the key's BIT STRING.
  \<open>Unmarshal_BitString\<close> stands for \<^verbatim>\<open>asn1.Unmarshal\<close> into the two-field structure and
  taking \<^verbatim>\<open>BitString.Bytes\<close>.
\<close>

definition generateSKID :: "'w env \<Rightarrow> PublicKey \<Rightarrow> error + byte list" where
  "generateSKID env pk =
     (case MarshalPKIXPublicKey env pk of
        Inl err \<Rightarrow> Inl err
      | Inr pkBytes \<Rightarrow>
          (case Unmarshal_BitString env pkBytes of
             Inl err \<Rightarrow> Inl err
           | Inr bitString \<Rightarrow> Inr (take 20 (sha256_Sum256 env bitString))))"

definition fromX509 ::
  "(string \<Rightarrow> string) \<Rightarrow> (IP \<Rightarrow> string) \<Rightarrow> string \<Rightarrow> string list \<Rightarrow> IP list
   \<Rightarrow> ACMEIdentifier list" where
  "fromX509 toLower ipString commonName dnsNames ipAddresses =
     (let sans = map NewDNS dnsNames;
          sans = (if commonName \<noteq> [] then sans @ [NewDNS commonName] else sans);
          sans = sans @ map (\<lambda>ip. \<lparr>Type = TypeIP, Value = ipString ip\<rparr>) ipAddresses
      in Normalize toLower sans)"

definition FromCSR ::
  "(string \<Rightarrow> string) \<Rightarrow> (IP \<Rightarrow> string) \<Rightarrow> CertificateRequest \<Rightarrow> ACMEIdentifier list" where
  "FromCSR toLower ipString csr =
     fromX509 toLower ipString (csr_Subject_CommonName csr) (csr_DNSNames csr)
       (csr_IPAddresses csr)"

text \<open>
  Modelled from the spec: the method \<^verbatim>\<open>ToValues\<close> of \<^verbatim>\<open>ACMEIdentifiers\<close> is not among the
  sources. The spec has it extract the DNS names and the IP addresses: the values of the
  identifiers of type \<^verbatim>\<open>dns\<close>, and the parsed values of those of type \<^verbatim>\<open>ip\<close>, each in the
  order of the list; an address that does not parse, or any other type, is an error.
\<close>

fun ToValues_loop ::
  "(string \<Rightarrow> IP option) \<Rightarrow> ACMEIdentifier list \<Rightarrow> string list \<Rightarrow> IP list
   \<Rightarrow> error + string list \<times> IP list" where
  "ToValues_loop parseIP [] dnsNames ipAddresses = Inr (dnsNames, ipAddresses)"
| "ToValues_loop parseIP (ident # rest) dnsNames ipAddresses =
     (if Type ident = TypeDNS
      then ToValues_loop parseIP rest (dnsNames @ [Value ident]) ipAddresses
      else if Type ident = TypeIP
      then (case parseIP (Value ident) of
              None \<Rightarrow> Inl (Errorf (''parsing IP address: '' @ Value ident))
            | Some ip \<Rightarrow> ToValues_loop parseIP rest dnsNames (ipAddresses @ [ip]))
      else Inl (Errorf (''evaluating identifier type: '' @ Type ident @ '' for ''
                        @ Value ident)))"

definition ToValues ::
  "(string \<Rightarrow> IP option) \<Rightarrow> ACMEIdentifier list \<Rightarrow> error + string list \<times> IP list" where
  "ToValues parseIP idents = ToValues_loop parseIP idents [] []"

definition precertType :: string where
  "precertType = ''precertificate''"

definition certType :: string where
  "certType = ''certificate''"

definition noteSignError :: "error \<Rightarrow> caMetrics \<Rightarrow> caMetrics" where
  "noteSignError err m =
     (if errors_Is err Pkcs11Error
      then m\<lparr>signErrorCount := (signErrorCount m)(''HSM'' := signErrorCount m ''HSM'' + 1)\<rparr>
      else m)"

definition countSignature :: "string \<Rightarrow> string \<Rightarrow> caMetrics \<Rightarrow> caMetrics" where
  \<comment> \<open>\<^verbatim>\<open>signatureCount.With(purpose, issuer).Inc()\<close>\<close>
  "countSignature purpose issuerName m =
     m\<lparr>signatureCount :=
         (signatureCount m)((purpose, issuerName) := signatureCount m (purpose, issuerName) + 1)\<rparr>"

definition countCertificate :: "string \<Rightarrow> caMetrics \<Rightarrow> caMetrics" where
  \<comment> \<open>\<^verbatim>\<open>certificates.With(profile).Inc()\<close>\<close>
  "countCertificate profileName m =
     m\<lparr>certificates := (certificates m)(profileName := certificates m profileName + 1)\<rparr>"

section \<open>The precertificate path\<close>

text \<open>
  \<^verbatim>\<open>issuePrecertificateInner\<close>. \<^verbatim>\<open>mrand.IntN(n)\<close> answers below \<open>n\<close>; the model reduces what
  the world answers modulo \<open>n\<close>. The second result of the Go function, a
  \<^verbatim>\<open>certProfileWithID\<close> with the profile's name and a nil profile, is here that name.
\<close>

definition issuePrecertificateInner ::
  "'w env \<Rightarrow> 'w certificateAuthorityImpl \<Rightarrow> IssueCertificateRequest \<Rightarrow> certProfileWithID
   \<Rightarrow> int \<Rightarrow> Time \<Rightarrow> Time \<Rightarrow> 'w state \<Rightarrow> (error + byte list \<times> string) \<times> 'w state" where
  "issuePrecertificateInner env ca issueReq certProfile serialBigInt notBefore notAfter s =
     (case ParseCertificateRequest env (Csr issueReq) of
        Inl err \<Rightarrow> (Inl err, s)
      | Inr csr \<Rightarrow>
     (case ask (VerifyCSR env csr (maxNames ca)) s of
        (Some err, s) \<Rightarrow> (Inl err, s)
      | (None, s) \<Rightarrow>
     (let alg = csr_PublicKeyAlgorithm csr in
      case byAlg (issuers ca) alg of
        None \<Rightarrow>
          (Inl (InternalServerError (''no issuers found for public key algorithm ''
                                     @ PublicKeyAlgorithm_String alg)), s)
      | Some issuerPool \<Rightarrow>
      if length issuerPool = 0
      then (Inl (InternalServerError (''no issuers found for public key algorithm ''
                                      @ PublicKeyAlgorithm_String alg)), s)
      else
     (case ask (mrand_IntN env (length issuerPool)) s of
        (i, s) \<Rightarrow>
     (let issuer = issuerPool ! (i mod length issuerPool) in
      if Cert_NotAfter issuer < notAfter
      then (Inl (InternalServerError
                  ''cannot issue a certificate that expires after the issuer certificate''), s)
      else
     (case generateSKID env (csr_PublicKey csr) of
        Inl err \<Rightarrow> (Inl (Errorf_w ''computing subject key ID: '' err), s)
      | Inr subjectKeyId \<Rightarrow>
     (let serialHex = SerialToString env serialBigInt in
      case ToValues (ParseIP env) (FromCSR (strings_ToLower env) (IP_String env) csr) of
        Inl err \<Rightarrow> (Inl err, s)
      | Inr (dnsNames, ipAddresses) \<Rightarrow>
     (let req = \<lparr>PublicKey = csr_PublicKey csr,
                 SubjectKeyId = subjectKeyId,
                 Serial = Bytes serialBigInt,
                 DNSNames = dnsNames,
                 IPAddresses = ipAddresses,
                 CommonName = CNFromCSR env csr,
                 IncludeCTPoison = True,
                 NotBefore = notBefore,
                 NotAfter = notAfter,
                 sctList = []\<rparr> in
      case call (Prepare env issuer (profile certProfile) req)
                (EvPrepare issuer (profile certProfile) req) s of
        (Inl err, s) \<Rightarrow>
          (Inl (InternalServerError (''failed to prepare precertificate signing: ''
                                     @ Error err)),
           s\<lparr>metrics :=
               (if errors_Is err ErrLinting
                then (metrics s)\<lparr>lintErrorCount := lintErrorCount (metrics s) + 1\<rparr>
                else metrics s)\<rparr>)
      | (Inr (lintCertBytes, issuanceToken), s) \<Rightarrow>
     (case ask (clk ca) s of
        (now, s) \<Rightarrow>
     (let precertReq = \<lparr>Der = lintCertBytes,
                        RegID = RegistrationID issueReq,
                        Issued = now,
                        IssuerNameID = NameID issuer,
                        OcspNotReady = True\<rparr> in
      case call (AddPrecertificate (sa ca) precertReq) (EvAddPrecertificate precertReq) s of
        (Some err, s) \<Rightarrow> (Inl err, s)
      | (None, s) \<Rightarrow>
     (case call (Issue env issuer issuanceToken) (EvIssue issuer issuanceToken) s of
        (Inl err, s) \<Rightarrow>
          (Inl (InternalServerError (''failed to sign precertificate: '' @ Error err)),
           s\<lparr>metrics := noteSignError err (metrics s)\<rparr>)
      | (Inr certDER, s) \<Rightarrow>
     (case tbsCertIsDeterministic lintCertBytes certDER of
        Some err \<Rightarrow> (Inl err, s)
      | None \<Rightarrow>
          (Inr (certDER, name certProfile),
           s\<lparr>metrics := countSignature precertType (Name issuer) (metrics s)\<rparr>)))))))))))))"

definition issuePrecertificate ::
  "'w env \<Rightarrow> 'w certificateAuthorityImpl \<Rightarrow> certProfileWithID \<Rightarrow> IssueCertificateRequest
   \<Rightarrow> 'w state \<Rightarrow> (error + byte list) \<times> 'w state" where
  "issuePrecertificate env ca certProfile issueReq s =
     (case generateSerialNumber env ca s of
        (Inl err, s) \<Rightarrow> (Inl err, s)
      | (Inr serialBigInt, s) \<Rightarrow>
     (case ask (clk ca) s of
        (now, s) \<Rightarrow>
     (case ask (GenerateValidity env (profile certProfile) now) s of
        ((notBefore, notAfter), s) \<Rightarrow>
     (let serialHex = SerialToString env serialBigInt;
          regID = RegistrationID issueReq in
      case ask (clk ca) s of
        (created, s) \<Rightarrow>
     (let serialReq = \<lparr>sr_Serial = serialHex, sr_RegID = regID,
                       sr_Created = created, sr_Expires = notAfter\<rparr> in
      case call (AddSerial (sa ca) serialReq) (EvAddSerial serialReq) s of
        (Some err, s) \<Rightarrow> (Inl err, s)
      | (None, s) \<Rightarrow>
     (case issuePrecertificateInner env ca issueReq certProfile serialBigInt
             notBefore notAfter s of
        (Inl err, s) \<Rightarrow> (Inl err, s)
      | (Inr (precertDER, _), s) \<Rightarrow>
     (case call (SetCertificateStatusReady (sa ca) serialHex)
                (EvSetCertificateStatusReady serialHex) s of
        (Some err, s) \<Rightarrow> (Inl err, s)
      | (None, s) \<Rightarrow> (Inr precertDER, s))))))))"

section \<open>The final certificate path\<close>

fun unmarshalSCTs ::
  "(byte list \<Rightarrow> error + SignedCertificateTimestamp) \<Rightarrow> byte list list
   \<Rightarrow> SignedCertificateTimestamp list \<Rightarrow> error + SignedCertificateTimestamp list" where
  "unmarshalSCTs unmarshal [] scts = Inr scts"
| "unmarshalSCTs unmarshal (singleSCTBytes # rest) scts =
     (case unmarshal singleSCTBytes of
        Inl err \<Rightarrow> Inl err
      | Inr sct \<Rightarrow> unmarshalSCTs unmarshal rest (scts @ [sct]))"

definition issueCertificateForPrecertificate ::
  "'w env \<Rightarrow> 'w certificateAuthorityImpl \<Rightarrow> certProfileWithID \<Rightarrow> byte list
   \<Rightarrow> byte list list \<Rightarrow> int \<Rightarrow> int \<Rightarrow> 'w state \<Rightarrow> (error + byte list) \<times> 'w state" where
  "issueCertificateForPrecertificate env ca certProfile precertDER sctBytes regID orderID s =
     (case ParseCertificate env precertDER of
        Inl err \<Rightarrow> (Inl err, s)
      | Inr precert \<Rightarrow>
     (let serialHex = SerialToString env (SerialNumber precert) in
      case call (GetCertificate (sa ca) serialHex) (EvGetCertificate serialHex) s of
        (None, s) \<Rightarrow>
          (Inl (InternalServerError (''issuance of duplicate final certificate requested: ''
                                     @ serialHex)), s)
      | (Some err, s) \<Rightarrow>
      if \<not> errors_Is err (BoulderErrorType NotFound)
      then (Inl (Errorf (''error checking for duplicate issuance of '' @ serialHex @ '': ''
                         @ Error err)), s)
      else
     (case unmarshalSCTs (cttls_Unmarshal env) sctBytes [] of
        Inl err \<Rightarrow> (Inl err, s)
      | Inr scts \<Rightarrow>
     (case byNameID (issuers ca) (IssuerNameID_of env precert) of
        None \<Rightarrow>
          (Inl (InternalServerError (''no issuer found for Issuer Name ''
                                     @ cert_Issuer precert)), s)
      | Some issuer \<Rightarrow>
     (case RequestFromPrecert env precert scts of
        Inl err \<Rightarrow> (Inl err, s)
      | Inr issuanceReq \<Rightarrow>
     (case call (Prepare env issuer (profile certProfile) issuanceReq)
                (EvPrepare issuer (profile certProfile) issuanceReq) s of
        (Inl err, s) \<Rightarrow>
          (Inl (InternalServerError (''failed to prepare certificate signing: ''
                                     @ Error err)), s)
      | (Inr (lintCertBytes, issuanceToken), s) \<Rightarrow>
     (case call (Issue env issuer issuanceToken) (EvIssue issuer issuanceToken) s of
        (Inl err, s) \<Rightarrow>
          (Inl (InternalServerError (''failed to sign certificate: '' @ Error err)),
           s\<lparr>metrics := noteSignError err (metrics s)\<rparr>)
      | (Inr certDER, s) \<Rightarrow>
     (case tbsCertIsDeterministic lintCertBytes certDER of
        Some err \<Rightarrow> (Inl err, s)
      | None \<Rightarrow>
     (let s = s\<lparr>metrics := countCertificate (name certProfile)
                             (countSignature certType (Name issuer) (metrics s))\<rparr> in
      case ask (clk ca) s of
        (now, s) \<Rightarrow>
     (let certReq = \<lparr>Der = certDER, RegID = regID, Issued = now,
                     IssuerNameID = 0, OcspNotReady = False\<rparr> in
      case call (AddCertificate (sa ca) certReq) (EvAddCertificate certReq) s of
        (Some err, s) \<Rightarrow> (Inl err, s)
      | (None, s) \<Rightarrow> (Inr certDER, s)))))))))))"

section \<open>The orchestrator\<close>

text \<open>
  \<^verbatim>\<open>IssueCertificate\<close>. The request arrives over gRPC and is never a nil pointer; its
  fields are checked with \<^verbatim>\<open>core.IsAnyNilOrZero\<close>.
\<close>

definition IssueCertificate ::
  "'w env \<Rightarrow> 'w certificateAuthorityImpl \<Rightarrow> IssueCertificateRequest \<Rightarrow> 'w state
   \<Rightarrow> (error + byte list) \<times> 'w state" where
  "IssueCertificate env ca issueReq s =
     (if IsNilOrZero_bytes (Csr issueReq) \<or> IsNilOrZero_int (RegistrationID issueReq)
         \<or> IsNilOrZero_int (OrderID issueReq)
      then (Inl (InternalServerError ''Incomplete issue certificate request''), s)
      else
     (case sctClient ca of
        None \<Rightarrow> (Inl (errors_New ''IssueCertificate called with a nil SCT service''), s)
      | Some GetSCTs \<Rightarrow>
     (case certProfiles ca (CertProfileName issueReq) of
        None \<Rightarrow>
          (Inl (Errorf (''the CA is incapable of using a profile named ''
                        @ CertProfileName issueReq)), s)
      | Some certProfile \<Rightarrow>
     (case issuePrecertificate env ca certProfile issueReq s of
        (Inl err, s) \<Rightarrow> (Inl err, s)
      | (Inr precertDER, s) \<Rightarrow>
     (case call (GetSCTs precertDER) (EvGetSCTs precertDER) s of
        (Inl err, s) \<Rightarrow> (Inl err, s)
      | (Inr sctDER, s) \<Rightarrow>
     (case issueCertificateForPrecertificate env ca certProfile precertDER sctDER
             (RegistrationID issueReq) (OrderID issueReq) s of
        (Inl err, s) \<Rightarrow> (Inl err, s)
      | (Inr certDER, s) \<Rightarrow> (Inr certDER, s)))))))"

section \<open>Notions of the specification\<close>

text \<open>
  What the specification says of \<^verbatim>\<open>Normalize\<close>, in its words: the value is lowercased,
  by the function that stands for \<^verbatim>\<open>strings.ToLower\<close>;
  an identifier comes before another when it is of type DNS and the other of type IP, or
  when both have the same type and its value is the smaller one.
\<close>

definition lowered :: "(string \<Rightarrow> string) \<Rightarrow> ACMEIdentifier \<Rightarrow> ACMEIdentifier" where
  "lowered toLower i = i\<lparr>Value := toLower (Value i)\<rparr>"

definition identBefore :: "ACMEIdentifier \<Rightarrow> ACMEIdentifier \<Rightarrow> bool" where
  "identBefore a b =
     ((Type a = TypeDNS \<and> Type b = TypeIP) \<or> (Type a = Type b \<and> Value a < Value b))"

text \<open>The two identifier types that the package registers.\<close>

definition validType :: "ACMEIdentifier \<Rightarrow> bool" where
  "validType a = (Type a = TypeDNS \<or> Type a = TypeIP)"

text \<open>A sort key for identifiers of the two registered types: DNS first, then by value.\<close>

definition identKey :: "ACMEIdentifier \<Rightarrow> bool \<times> string" where
  "identKey a = (Type a \<noteq> TypeDNS, Value a)"

text \<open>
  What the specification says of the issuer maps: reading \<^verbatim>\<open>byAlg\<close> at an algorithm gives
  a list of issuers (the nil slice when the algorithm is no key of the Go map), and the
  issuers usable for an algorithm are the active ones of that key type, in the order of
  the configuration.
\<close>

definition poolOf :: "(PublicKeyAlgorithm \<rightharpoonup> Issuer list) \<Rightarrow> PublicKeyAlgorithm \<Rightarrow> Issuer list" where
  "poolOf m alg = (case m alg of None \<Rightarrow> [] | Some l \<Rightarrow> l)"

definition activeOf :: "PublicKeyAlgorithm \<Rightarrow> Issuer list \<Rightarrow> Issuer list" where
  "activeOf alg boulderIssuers = filter (\<lambda>i. IsActive i \<and> KeyType i = alg) boulderIssuers"

section \<open>Observing a run\<close>

text \<open>
  To state in which order the CA calls its collaborators: the kind of a call; whether its
  answer makes the CA stop (an error, or for \<^verbatim>\<open>GetCertificate\<close> any answer but a NotFound
  error); a list of calls in which only the last one may be of that sort; a list that
  is an initial segment of another; and the calls of a whole issuance.
\<close>

datatype callKind =
    KAddSerial | KAddPrecertificate | KSetCertificateStatusReady | KGetCertificate
  | KAddCertificate | KGetSCTs | KPrepare | KIssue

fun kind :: "event \<Rightarrow> callKind" where
  "kind (EvAddSerial _ _) = KAddSerial"
| "kind (EvAddPrecertificate _ _) = KAddPrecertificate"
| "kind (EvSetCertificateStatusReady _ _) = KSetCertificateStatusReady"
| "kind (EvGetCertificate _ _) = KGetCertificate"
| "kind (EvAddCertificate _ _) = KAddCertificate"
| "kind (EvGetSCTs _ _) = KGetSCTs"
| "kind (EvPrepare _ _ _ _) = KPrepare"
| "kind (EvIssue _ _ _) = KIssue"

fun stops :: "event \<Rightarrow> bool" where
  "stops (EvAddSerial _ r) = (r \<noteq> None)"
| "stops (EvAddPrecertificate _ r) = (r \<noteq> None)"
| "stops (EvSetCertificateStatusReady _ r) = (r \<noteq> None)"
| "stops (EvGetCertificate _ r) =
     (case r of None \<Rightarrow> True | Some err \<Rightarrow> \<not> errors_Is err (BoulderErrorType NotFound))"
| "stops (EvAddCertificate _ r) = (r \<noteq> None)"
| "stops (EvGetSCTs _ r) = isl r"
| "stops (EvPrepare _ _ _ r) = isl r"
| "stops (EvIssue _ _ r) = isl r"

fun stopsLast :: "event list \<Rightarrow> bool" where
  "stopsLast [] = True"
| "stopsLast [e] = True"
| "stopsLast (e # e' # es) = (\<not> stops e \<and> stopsLast (e' # es))"

fun prefixOf :: "'a list \<Rightarrow> 'a list \<Rightarrow> bool" where
  "prefixOf [] ys = True"
| "prefixOf (x # xs) [] = False"
| "prefixOf (x # xs) (y # ys) = (x = y \<and> prefixOf xs ys)"

definition issuanceCalls :: "callKind list" where
  "issuanceCalls =
     [KAddSerial, KPrepare, KAddPrecertificate, KIssue, KSetCertificateStatusReady,
      KGetSCTs, KGetCertificate, KPrepare, KIssue, KAddCertificate]"

text \<open>
  A whole issuance as the specification orders it: the serial is reserved, the lint
  certificate is prepared and persisted, the precertificate is signed with the token of that
  preparation, the serial is promoted, SCTs are fetched for the precertificate, no final
  certificate is found, and the final certificate is prepared, signed and stored.
\<close>

definition completeIssuance :: "byte list \<Rightarrow> event list \<Rightarrow> bool" where
  "completeIssuance certDER evs =
     (\<exists>serialReq issuer p req lintDER token precertReq precertDER serialHex scts
        serialHex' notFound issuer' p' req' lintDER' token' certReq.
        evs = [EvAddSerial serialReq None,
               EvPrepare issuer p req (Inr (lintDER, token)),
               EvAddPrecertificate precertReq None,
               EvIssue issuer token (Inr precertDER),
               EvSetCertificateStatusReady serialHex None,
               EvGetSCTs precertDER (Inr scts),
               EvGetCertificate serialHex' (Some notFound),
               EvPrepare issuer' p' req' (Inr (lintDER', token')),
               EvIssue issuer' token' (Inr certDER),
               EvAddCertificate certReq None]
        \<and> Der precertReq = lintDER
        \<and> errors_Is notFound (BoulderErrorType NotFound)
        \<and> Der certReq = certDER)"

text \<open>
  What a run of each function of the CA can leave behind: from the metrics before, the
  result, the calls made and the metrics after. Each rule is one way through the function.
\<close>

inductive innerOutcome ::
  "caMetrics \<Rightarrow> (error + byte list \<times> string) \<Rightarrow> event list \<Rightarrow> caMetrics \<Rightarrow> bool" where
  inner_early: "innerOutcome m (Inl err) [] m"
| inner_lint:
    "errors_Is e ErrLinting \<Longrightarrow>
     r = Inl (InternalServerError
               (''failed to prepare precertificate signing: '' @ Error e)) \<Longrightarrow>
     m' = m\<lparr>lintErrorCount := lintErrorCount m + 1\<rparr> \<Longrightarrow>
     innerOutcome m r [EvPrepare i p q (Inl e)] m'"
| inner_prepare:
    "\<not> errors_Is e ErrLinting \<Longrightarrow>
     r = Inl (InternalServerError
               (''failed to prepare precertificate signing: '' @ Error e)) \<Longrightarrow>
     innerOutcome m r [EvPrepare i p q (Inl e)] m"
| inner_persist:
    "Der a = lint \<Longrightarrow>
     innerOutcome m (Inl e)
       [EvPrepare i p q (Inr (lint, tok)), EvAddPrecertificate a (Some e)] m"
| inner_sign:
    "Der a = lint \<Longrightarrow>
     r = Inl (InternalServerError (''failed to sign precertificate: '' @ Error e)) \<Longrightarrow>
     innerOutcome m r
       [EvPrepare i p q (Inr (lint, tok)), EvAddPrecertificate a None, EvIssue i tok (Inl e)]
       (noteSignError e m)"
| inner_mismatch:
    "Der a = lint \<Longrightarrow> tbsCertIsDeterministic lint der = Some err \<Longrightarrow>
     innerOutcome m (Inl err)
       [EvPrepare i p q (Inr (lint, tok)), EvAddPrecertificate a None, EvIssue i tok (Inr der)]
       m"
| inner_done:
    "Der a = lint \<Longrightarrow> tbsCertIsDeterministic lint der = None \<Longrightarrow>
     innerOutcome m (Inr (der, n))
       [EvPrepare i p q (Inr (lint, tok)), EvAddPrecertificate a None, EvIssue i tok (Inr der)]
       (countSignature precertType (Name i) m)"

inductive finalOutcome ::
  "caMetrics \<Rightarrow> (error + byte list) \<Rightarrow> event list \<Rightarrow> caMetrics \<Rightarrow> bool" where
  final_early: "finalOutcome m (Inl err) [] m"
| final_duplicate:
    "r = Inl (InternalServerError
               (''issuance of duplicate final certificate requested: '' @ ser)) \<Longrightarrow>
     finalOutcome m r [EvGetCertificate ser None] m"
| final_lookup:
    "\<not> errors_Is e (BoulderErrorType NotFound) \<Longrightarrow>
     r = Inl (Errorf (''error checking for duplicate issuance of '' @ ser @ '': ''
                      @ Error e)) \<Longrightarrow>
     finalOutcome m r [EvGetCertificate ser (Some e)] m"
| final_request:
    "errors_Is nf (BoulderErrorType NotFound) \<Longrightarrow>
     finalOutcome m (Inl err) [EvGetCertificate ser (Some nf)] m"
| final_prepare:
    "errors_Is nf (BoulderErrorType NotFound) \<Longrightarrow>
     r = Inl (InternalServerError (''failed to prepare certificate signing: '' @ Error e)) \<Longrightarrow>
     finalOutcome m r [EvGetCertificate ser (Some nf), EvPrepare i p q (Inl e)] m"
| final_sign:
    "errors_Is nf (BoulderErrorType NotFound) \<Longrightarrow>
     r = Inl (InternalServerError (''failed to sign certificate: '' @ Error e)) \<Longrightarrow>
     finalOutcome m r
       [EvGetCertificate ser (Some nf), EvPrepare i p q (Inr (lint, tok)),
        EvIssue i tok (Inl e)]
       (noteSignError e m)"
| final_mismatch:
    "errors_Is nf (BoulderErrorType NotFound) \<Longrightarrow>
     tbsCertIsDeterministic lint der = Some err \<Longrightarrow>
     finalOutcome m (Inl err)
       [EvGetCertificate ser (Some nf), EvPrepare i p q (Inr (lint, tok)),
        EvIssue i tok (Inr der)]
       m"
| final_store:
    "errors_Is nf (BoulderErrorType NotFound) \<Longrightarrow>
     tbsCertIsDeterministic lint der = None \<Longrightarrow> Der c = der \<Longrightarrow>
     finalOutcome m (Inl e)
       [EvGetCertificate ser (Some nf), EvPrepare i p q (Inr (lint, tok)),
        EvIssue i tok (Inr der), EvAddCertificate c (Some e)]
       (countCertificate pn (countSignature certType (Name i) m))"
| final_done:
    "errors_Is nf (BoulderErrorType NotFound) \<Longrightarrow>
     tbsCertIsDeterministic lint der = None \<Longrightarrow> Der c = der \<Longrightarrow>
     finalOutcome m (Inr der)
       [EvGetCertificate ser (Some nf), EvPrepare i p q (Inr (lint, tok)),
        EvIssue i tok (Inr der), EvAddCertificate c None]
       (countCertificate pn (countSignature certType (Name i) m))"

inductive precertOutcome ::
  "caMetrics \<Rightarrow> (error + byte list) \<Rightarrow> event list \<Rightarrow> caMetrics \<Rightarrow> bool" where
  precert_early: "precertOutcome m (Inl err) [] m"
| precert_reserve: "precertOutcome m (Inl e) [EvAddSerial a (Some e)] m"
| precert_inner:
    "innerOutcome m (Inl e) evi m' \<Longrightarrow>
     precertOutcome m (Inl e) (EvAddSerial a None # evi) m'"
| precert_promote:
    "innerOutcome m (Inr (der, n)) evi m' \<Longrightarrow>
     precertOutcome m (Inl e)
       (EvAddSerial a None # evi @ [EvSetCertificateStatusReady ser (Some e)]) m'"
| precert_done:
    "innerOutcome m (Inr (der, n)) evi m' \<Longrightarrow>
     precertOutcome m (Inr der)
       (EvAddSerial a None # evi @ [EvSetCertificateStatusReady ser None]) m'"

inductive issuanceOutcome ::
  "caMetrics \<Rightarrow> (error + byte list) \<Rightarrow> event list \<Rightarrow> caMetrics \<Rightarrow> bool" where
  issuance_early: "issuanceOutcome m (Inl err) [] m"
| issuance_precert:
    "precertOutcome m (Inl e) evp m' \<Longrightarrow> issuanceOutcome m (Inl e) evp m'"
| issuance_scts:
    "precertOutcome m (Inr precertDER) evp m' \<Longrightarrow>
     issuanceOutcome m (Inl e) (evp @ [EvGetSCTs precertDER (Inl e)]) m'"
| issuance_final:
    "precertOutcome m (Inr precertDER) evp m' \<Longrightarrow> finalOutcome m' (Inl e) evf m'' \<Longrightarrow>
     issuanceOutcome m (Inl e) (evp @ EvGetSCTs precertDER (Inr scts) # evf) m''"
| issuance_done:
    "precertOutcome m (Inr precertDER) evp m' \<Longrightarrow> finalOutcome m' (Inr der) evf m'' \<Longrightarrow>
     issuanceOutcome m (Inr der) (evp @ EvGetSCTs precertDER (Inr scts) # evf) m''"

section \<open>Notions for the serial number\<close>

text \<open>
  The number that a byte string denotes big-endian, as a natural number; and the 17 bytes
  that the buffer of \<^verbatim>\<open>generateSerialNumber\<close> holds behind the prefix once \<^verbatim>\<open>rand.Read\<close>
  has answered in the state \<open>s\<close>.
\<close>

definition natOfBytes :: "byte list \<Rightarrow> nat" where
  "natOfBytes buf = foldl (\<lambda>z b. z * 256 + unat b) 0 buf"

definition drawn :: "'w env \<Rightarrow> 'w state \<Rightarrow> byte list" where
  "drawn env s = take 17 (fst (fst (rand_Read env 17 (world s))) @ replicate 17 0)"

section \<open>A configuration to run the model on\<close>

text \<open>
  On a string of ASCII characters \<^verbatim>\<open>strings.ToLower\<close> moves the letters \<^verbatim>\<open>A\<close> to \<^verbatim>\<open>Z\<close>
  (bytes 65 to 90) to \<^verbatim>\<open>a\<close> to \<^verbatim>\<open>z\<close> and leaves every other character. The sample
  configuration, whose names are ASCII, lowers with this function.
\<close>

definition lowerByte :: "char \<Rightarrow> char" where
  "lowerByte c =
     (if 65 \<le> (of_char c :: nat) \<and> (of_char c :: nat) \<le> 90
      then char_of ((of_char c :: nat) + 32) else c)"

definition lowerASCII :: "string \<Rightarrow> string" where
  "lowerASCII s = map lowerByte s"

text \<open>Three issuers: an active RSA one, an active ECDSA one, a retired RSA one.\<close>

definition rsaA :: Issuer where
  "rsaA = \<lparr>Name = ''int-rsa-a'', NameID = 1, KeyType = RSA, IsActive = True, Cert_NotAfter = 1000\<rparr>"

definition ecdsaA :: Issuer where
  "ecdsaA = \<lparr>Name = ''int-ecdsa-a'', NameID = 2, KeyType = ECDSA, IsActive = True, Cert_NotAfter = 1000\<rparr>"

definition rsaOld :: Issuer where
  "rsaOld = \<lparr>Name = ''int-rsa-old'', NameID = 3, KeyType = RSA, IsActive = False, Cert_NotAfter = 500\<rparr>"

text \<open>A Storage Authority that stores everything and has no final certificate yet.\<close>

definition notFound :: error where
  "notFound = GoError ''certificate not found'' [BoulderErrorType NotFound]"

definition sampleSA :: "nat StorageAuthorityCertificateClient" where
  "sampleSA =
     \<lparr>AddSerial = (\<lambda>req w. (None, w)),
      AddPrecertificate = (\<lambda>req w. (None, w)),
      SetCertificateStatusReady = (\<lambda>serial w. (None, w)),
      GetCertificate = (\<lambda>serial w. (Some notFound, w)),
      AddCertificate = (\<lambda>req w. (None, w))\<rparr>"

text \<open>An SCT provider, a clock that ticks at every reading, and what the CSR parses to.\<close>

definition sampleSCTs :: "nat SCTProviderClient" where
  "sampleSCTs = (\<lambda>precertDER w. (Inr [[1, 2, 3]], w))"

definition sampleClock :: "nat \<Rightarrow> Time \<times> nat" where
  "sampleClock = (\<lambda>w. (int w, Suc w))"

definition sampleCSR :: CertificateRequest where
  "sampleCSR =
     \<lparr>csr_Raw = [1], csr_PublicKeyAlgorithm = RSA, csr_PublicKey = Key [9, 9],
      csr_Subject_CommonName = ''cn.example'', csr_DNSNames = [''San.example''],
      csr_IPAddresses = []\<rparr>"

text \<open>A lint certificate and a signed certificate with the same TBS octets \<open>02\<close>.\<close>

definition lintCert :: "byte list" where
  "lintCert = [0x30, 0x05, 0x30, 0x01, 0x02, 0x05, 0x00]"

definition signedCert :: "byte list" where
  "signedCert = [0x30, 0x05, 0x30, 0x01, 0x02, 0x03, 0x01]"

text \<open>Collaborators that always succeed.\<close>

definition sampleEnv :: "nat env" where
  "sampleEnv =
     \<lparr>rand_Read = (\<lambda>n w. ((replicate n 0xAB, None), w)),
      mrand_IntN = (\<lambda>n w. (0, w)),
      SerialToString = (\<lambda>serial. hex (Bytes serial)),
      NewProfile = (\<lambda>config. case config of ProfileConfig n \<Rightarrow> Inr (Profile n)),
      GenerateValidity = (\<lambda>p now w. ((now, now + 90), w)),
      ParseCertificateRequest =
        (\<lambda>der. if der = [1] then Inr sampleCSR else Inl (errors_New ''asn1: syntax error'')),
      VerifyCSR = (\<lambda>csr maxNames w. (None, w)),
      MarshalPKIXPublicKey = (\<lambda>pk. case pk of Key k \<Rightarrow> Inr k),
      Unmarshal_BitString = (\<lambda>der. Inr der),
      sha256_Sum256 = (\<lambda>bits. replicate 32 0x11),
      strings_ToLower = lowerASCII,
      IP_String = (\<lambda>ip. ''192.0.2.1''),
      ParseIP = (\<lambda>text. Some [192, 0, 2, 1]),
      CNFromCSR = (\<lambda>csr. lowerASCII (csr_Subject_CommonName csr)),
      Prepare = (\<lambda>issuer p req w. (Inr (lintCert, Token 1), w)),
      Issue = (\<lambda>issuer token w. (Inr signedCert, w)),
      ParseCertificate = (\<lambda>der. Inr \<lparr>SerialNumber = 5, cert_Issuer = ''CN=int-rsa-a''\<rparr>),
      cttls_Unmarshal = (\<lambda>der. Inr (SCT der)),
      IssuerNameID_of = (\<lambda>cert. 1),
      RequestFromPrecert =
        (\<lambda>cert scts. Inr \<lparr>PublicKey = Key [9, 9], SubjectKeyId = [], Serial = [5],
                           DNSNames = [''san.example''], IPAddresses = [], CommonName = [],
                           IncludeCTPoison = False, NotBefore = 0, NotAfter = 90,
                           sctList = scts\<rparr>)\<rparr>"

text \<open>The CA object that \<^verbatim>\<open>NewCertificateAuthorityImpl\<close> builds from the three issuers, and a request.\<close>

definition sampleCA :: "nat certificateAuthorityImpl" where
  "sampleCA =
     \<lparr>sa = sampleSA, sctClient = Some sampleSCTs,
      issuers = \<lparr>byAlg = [RSA \<mapsto> [rsaA], ECDSA \<mapsto> [ecdsaA]],
                 byNameID = [1 \<mapsto> rsaA, 2 \<mapsto> ecdsaA, 3 \<mapsto> rsaOld]\<rparr>,
      certProfiles = [''classic'' \<mapsto> \<lparr>name = ''classic'', profile = Profile 1\<rparr>],
      prefix = 0x7f, maxNames = 100, clk = sampleClock\<rparr>"

definition sampleRequest :: IssueCertificateRequest where
  "sampleRequest = \<lparr>Csr = [1], RegistrationID = 7, OrderID = 9, CertProfileName = ''classic''\<rparr>"

definition idle :: "nat state" where
  "idle = \<lparr>world = 0, trace = [],
            metrics = \<lparr>signatureCount = (\<lambda>labels. 0), signErrorCount = (\<lambda>label. 0),
                       lintErrorCount = 0, certificates = (\<lambda>label. 0)\<rparr>\<rparr>"

text \<open>The profile, the serial and the requests that a run on this configuration produces.\<close>

definition classic :: certProfileWithID where
  "classic = \<lparr>name = ''classic'', profile = Profile 1\<rparr>"

definition sampleSerial :: int where
  "sampleSerial = SetBytes (0x7f # replicate 17 0xAB)"

definition sampleSerialRequest :: AddSerialRequest where
  "sampleSerialRequest =
     \<lparr>sr_Serial = hex (Bytes sampleSerial), sr_RegID = 7, sr_Created = 1, sr_Expires = 90\<rparr>"

definition sampleIssuanceRequest :: IssuanceRequest where
  "sampleIssuanceRequest =
     \<lparr>PublicKey = Key [9, 9], SubjectKeyId = replicate 20 0x11, Serial = Bytes sampleSerial,
      DNSNames = [''cn.example'', ''san.example''], IPAddresses = [],
      CommonName = ''cn.example'', IncludeCTPoison = True, NotBefore = 0, NotAfter = 90,
      sctList = []\<rparr>"

text \<open>Variations: an issuer whose linter objects, a Storage Authority that already holds the final certificate, one that cannot be reached, and a request for a profile that is not configured.\<close>

definition lintFailure :: error where
  "lintFailure = GoError ''tbsCertificate linting failed: failed lint(s)'' [ErrLinting]"

definition lintingEnv :: "nat env" where
  "lintingEnv = sampleEnv\<lparr>Prepare := (\<lambda>issuer p req w. (Inl lintFailure, w))\<rparr>"

definition duplicateCA :: "nat certificateAuthorityImpl" where
  "duplicateCA = sampleCA\<lparr>sa := sampleSA\<lparr>GetCertificate := (\<lambda>serial w. (None, w))\<rparr>\<rparr>"

definition unreachable :: error where
  "unreachable = GoError ''connection refused'' []"

definition brokenCA :: "nat certificateAuthorityImpl" where
  "brokenCA =
     sampleCA\<lparr>sa := sampleSA\<lparr>GetCertificate := (\<lambda>serial w. (Some unreachable, w))\<rparr>\<rparr>"

definition unknownRequest :: IssueCertificateRequest where
  "unknownRequest = sampleRequest\<lparr>CertProfileName := ''nosuch''\<rparr>"

chapter \<open>Verification\<close>

section \<open>Normalize\<close>

lemma identCmp_key:
  "validType a \<Longrightarrow> validType b \<Longrightarrow> (identCmp a b < 0) = (identKey a < identKey b)"
  by (auto simp: identCmp_def identKey_def validType_def TypeDNS_def TypeIP_def)

lemma identKey_inj:
  "validType a \<Longrightarrow> validType b \<Longrightarrow> identKey a = identKey b \<Longrightarrow> a = (b :: ACMEIdentifier)"
  by (auto simp: identKey_def validType_def)

lemma identKey_before:
  "validType a \<Longrightarrow> validType b \<Longrightarrow> identKey a < identKey b \<Longrightarrow> identBefore a b"
  by (auto simp: identKey_def validType_def identBefore_def TypeDNS_def TypeIP_def)

lemma set_insertBack: "set (insertBack cmp x ys) = insert x (set ys)"
  by (induction ys) auto

lemma sorted_insertBack:
  "validType x \<Longrightarrow> \<forall>y\<in>set ys. validType y \<Longrightarrow> sorted (map identKey (rev ys)) \<Longrightarrow>
   sorted (map identKey (rev (insertBack identCmp x ys)))"
proof (induction ys)
  case Nil
  then show ?case by simp
next
  case (Cons y ys)
  then show ?case
    by (auto simp: sorted_append set_insertBack identCmp_key)
qed

lemma set_foldl_insertBack:
  "set (foldl (\<lambda>below x. insertBack cmp x below) acc xs) = set acc \<union> set xs"
  by (induction xs arbitrary: acc) (auto simp: set_insertBack)

lemma sorted_foldl_insertBack:
  "\<forall>y\<in>set acc \<union> set xs. validType y \<Longrightarrow> sorted (map identKey (rev acc)) \<Longrightarrow>
   sorted (map identKey (rev (foldl (\<lambda>below x. insertBack identCmp x below) acc xs)))"
proof (induction xs arbitrary: acc)
  case Nil
  then show ?case by simp
next
  case (Cons x xs)
  have "sorted (map identKey (rev (insertBack identCmp x acc)))"
    using Cons.prems by (intro sorted_insertBack) auto
  moreover have "\<forall>y\<in>set (insertBack identCmp x acc) \<union> set xs. validType y"
    using Cons.prems by (auto simp: set_insertBack)
  ultimately show ?case
    using Cons.IH [of "insertBack identCmp x acc"] by simp
qed

lemma set_SortFunc: "set (SortFunc cmp xs) = set xs"
  by (simp add: SortFunc_def set_foldl_insertBack)

lemma sorted_SortFunc:
  "\<forall>y\<in>set xs. validType y \<Longrightarrow> sorted (map identKey (SortFunc identCmp xs))"
  using sorted_foldl_insertBack [of "[]" xs] by (simp add: SortFunc_def)

lemma set_Compact: "set (Compact xs) = set xs"
  by (induction xs rule: Compact.induct) auto

lemma Compact_distinct: "distinct xs \<Longrightarrow> Compact xs = xs"
  by (induction xs rule: Compact.induct) auto

lemma strict_sorted_Compact:
  "\<forall>y\<in>set xs. validType y \<Longrightarrow> sorted (map identKey xs) \<Longrightarrow>
   sorted_wrt (\<lambda>a b. identKey a < identKey b) (Compact xs)"
proof (induction xs rule: Compact.induct)
  case 1
  then show ?case by simp
next
  case (2 x)
  then show ?case by simp
next
  case (3 x y ys)
  show ?case
  proof (cases "x = y")
    case True
    with 3 show ?thesis by simp
  next
    case False
    have xy: "identKey x < identKey y"
      using False 3(3,4) identKey_inj [of x y] by (auto simp: less_le)
    have "\<forall>z\<in>set (y # ys). identKey x < identKey z"
      using xy 3(4) by (auto simp: less_le_trans)
    with False 3 show ?thesis by (simp add: set_Compact)
  qed
qed

lemma insertBack_sorted_id:
  "validType x \<Longrightarrow> \<forall>y\<in>set acc. validType y \<Longrightarrow> \<forall>y\<in>set acc. identKey y < identKey x \<Longrightarrow>
   insertBack identCmp x acc = x # acc"
  by (cases acc) (auto simp: identCmp_key)

lemma foldl_insertBack_sorted_id:
  "\<forall>y\<in>set acc \<union> set xs. validType y \<Longrightarrow>
   sorted_wrt (\<lambda>a b. identKey a < identKey b) (rev acc @ xs) \<Longrightarrow>
   foldl (\<lambda>below x. insertBack identCmp x below) acc xs = rev xs @ acc"
proof (induction xs arbitrary: acc)
  case Nil
  then show ?case by simp
next
  case (Cons x xs)
  have "insertBack identCmp x acc = x # acc"
    using Cons.prems by (intro insertBack_sorted_id) (auto simp: sorted_wrt_append)
  moreover have "foldl (\<lambda>below x. insertBack identCmp x below) (x # acc) xs = rev xs @ x # acc"
    using Cons.prems by (intro Cons.IH) (auto simp: sorted_wrt_append)
  ultimately show ?case by simp
qed

lemma SortFunc_sorted_id:
  "\<forall>y\<in>set xs. validType y \<Longrightarrow> sorted_wrt (\<lambda>a b. identKey a < identKey b) xs \<Longrightarrow>
   SortFunc identCmp xs = xs"
  using foldl_insertBack_sorted_id [of "[]" xs] by (simp add: SortFunc_def)

lemma lowerByte_idem: "lowerByte (lowerByte c) = lowerByte c"
  by (simp add: lowerByte_def)

lemma lowerASCII_idem: "lowerASCII (lowerASCII s) = lowerASCII s"
  by (simp add: lowerASCII_def lowerByte_idem)

lemma distinct_strict_key: "sorted_wrt (\<lambda>a b. identKey a < identKey b) xs \<Longrightarrow> distinct xs"
  by (induction xs) auto

lemma Normalize_lowered:
  "Normalize toLower idents = Compact (SortFunc identCmp (map (lowered toLower) idents))"
proof -
  have "(\<lambda>i. i\<lparr>Value := toLower (Value i)\<rparr>) = lowered toLower"
    by (rule ext) (simp add: lowered_def)
  then show ?thesis by (simp add: Normalize_def)
qed

lemma set_Normalize: "set (Normalize toLower idents) = lowered toLower ` set idents"
  by (simp add: Normalize_lowered set_Compact set_SortFunc)

lemma strict_sorted_Normalize:
  assumes "\<forall>i\<in>set idents. validType i"
  shows "sorted_wrt (\<lambda>a b. identKey a < identKey b) (Normalize toLower idents)"
proof -
  have "\<forall>y\<in>set (map (lowered toLower) idents). validType y"
    using assms by (simp add: validType_def lowered_def)
  then show ?thesis
    unfolding Normalize_lowered
    by (intro strict_sorted_Compact sorted_SortFunc) (simp_all add: set_SortFunc)
qed

lemma Normalize_fixed:
  assumes valid: "\<forall>y\<in>set ys. validType y"
    and strict: "sorted_wrt (\<lambda>a b. identKey a < identKey b) ys"
    and low: "\<forall>y\<in>set ys. lowered toLower y = y"
  shows "Normalize toLower ys = ys"
proof -
  have "map (lowered toLower) ys = ys"
    using low by (simp add: map_idI)
  then have "Normalize toLower ys = Compact (SortFunc identCmp ys)"
    by (simp add: Normalize_lowered)
  also have "\<dots> = Compact ys"
    using valid strict by (simp add: SortFunc_sorted_id)
  also have "\<dots> = ys"
    using strict by (intro Compact_distinct distinct_strict_key)
  finally show ?thesis .
qed

text \<open>
  Claim C10, for the identifier types that the package registers, and for every function
  \<open>toLower\<close> in the place of \<^verbatim>\<open>strings.ToLower\<close>. When every identifier of the list is of
  type \<^verbatim>\<open>dns\<close> or \<^verbatim>\<open>ip\<close>, \<^verbatim>\<open>Normalize\<close> returns exactly the identifiers of its input with
  their values lowered by \<open>toLower\<close>, each once, every DNS identifier before every IP
  identifier and identifiers of one type in the order of their values. When moreover
  lowering a lowered value of the list changes nothing, which is the property of
  \<^verbatim>\<open>strings.ToLower\<close> that idempotence rests on, normalizing the result again changes
  nothing.
\<close>

theorem Normalize_registered_types:
  assumes "\<forall>i\<in>set idents. Type i = TypeDNS \<or> Type i = TypeIP"
  shows "set (Normalize toLower idents) = lowered toLower ` set idents
       \<and> distinct (Normalize toLower idents)
       \<and> sorted_wrt identBefore (Normalize toLower idents)
       \<and> ((\<forall>i\<in>set idents. toLower (toLower (Value i)) = toLower (Value i)) \<longrightarrow>
            Normalize toLower (Normalize toLower idents) = Normalize toLower idents)"
proof -
  have valid: "\<forall>i\<in>set idents. validType i"
    using assms by (simp add: validType_def)
  have validN: "\<forall>y\<in>set (Normalize toLower idents). validType y"
    using valid by (simp add: set_Normalize validType_def lowered_def)
  have strict: "sorted_wrt (\<lambda>a b. identKey a < identKey b) (Normalize toLower idents)"
    using valid by (rule strict_sorted_Normalize)
  have dist: "distinct (Normalize toLower idents)"
    using strict by (rule distinct_strict_key)
  have before: "sorted_wrt identBefore (Normalize toLower idents)"
    using strict validN by (auto intro: sorted_wrt_mono_rel [rotated] identKey_before)
  have idem: "Normalize toLower (Normalize toLower idents) = Normalize toLower idents"
    if low: "\<forall>i\<in>set idents. toLower (toLower (Value i)) = toLower (Value i)"
  proof -
    have "\<forall>y\<in>set (Normalize toLower idents). lowered toLower y = y"
      using low by (auto simp: set_Normalize lowered_def)
    with validN strict show ?thesis
      by (intro Normalize_fixed)
  qed
  from dist before idem show ?thesis
    by (simp add: set_Normalize)
qed

text \<open>
  The theorem at a list of one IP address and three DNS names, two of which differ in
  case only, lowered as ASCII.
\<close>

theorem Normalize_registered_types_witness:
  "Normalize lowerASCII
     [\<lparr>Type = ''ip'', Value = ''10.0.0.1''\<rparr>, \<lparr>Type = ''dns'', Value = ''B.example''\<rparr>,
      \<lparr>Type = ''dns'', Value = ''a.Example''\<rparr>, \<lparr>Type = ''dns'', Value = ''b.example''\<rparr>]
   = [\<lparr>Type = ''dns'', Value = ''a.example''\<rparr>, \<lparr>Type = ''dns'', Value = ''b.example''\<rparr>,
      \<lparr>Type = ''ip'', Value = ''10.0.0.1''\<rparr>]
   \<and> distinct (Normalize lowerASCII
        [\<lparr>Type = ''ip'', Value = ''10.0.0.1''\<rparr>, \<lparr>Type = ''dns'', Value = ''B.example''\<rparr>,
         \<lparr>Type = ''dns'', Value = ''a.Example''\<rparr>, \<lparr>Type = ''dns'', Value = ''b.example''\<rparr>])
   \<and> Normalize lowerASCII (Normalize lowerASCII
        [\<lparr>Type = ''ip'', Value = ''10.0.0.1''\<rparr>, \<lparr>Type = ''dns'', Value = ''B.example''\<rparr>,
         \<lparr>Type = ''dns'', Value = ''a.Example''\<rparr>, \<lparr>Type = ''dns'', Value = ''b.example''\<rparr>])
     = [\<lparr>Type = ''dns'', Value = ''a.example''\<rparr>, \<lparr>Type = ''dns'', Value = ''b.example''\<rparr>,
        \<lparr>Type = ''ip'', Value = ''10.0.0.1''\<rparr>]"
proof -
  let ?xs = "[\<lparr>Type = ''ip'', Value = ''10.0.0.1''\<rparr>, \<lparr>Type = ''dns'', Value = ''B.example''\<rparr>,
              \<lparr>Type = ''dns'', Value = ''a.Example''\<rparr>, \<lparr>Type = ''dns'', Value = ''b.example''\<rparr>]"
  have types: "\<forall>i\<in>set ?xs. Type i = TypeDNS \<or> Type i = TypeIP"
    by (simp add: TypeDNS_def TypeIP_def)
  have low: "\<forall>i\<in>set ?xs. lowerASCII (lowerASCII (Value i)) = lowerASCII (Value i)"
    by (simp add: lowerASCII_idem)
  have "Normalize lowerASCII ?xs = [\<lparr>Type = ''dns'', Value = ''a.example''\<rparr>,
      \<lparr>Type = ''dns'', Value = ''b.example''\<rparr>, \<lparr>Type = ''ip'', Value = ''10.0.0.1''\<rparr>]"
    by code_simp
  with Normalize_registered_types [OF types, of lowerASCII] low show ?thesis
    by simp
qed

text \<open>
  Claim C10 as it is stated, for every list: with an identifier type that the comparison
  does not know, the result keeps an identifier twice. The values \<^verbatim>\<open>a\<close> and \<^verbatim>\<open>b\<close> are
  lower-case ASCII, which \<^verbatim>\<open>strings.ToLower\<close> leaves as they are; the sort finds every
  comparison of the three identifiers answered 1 and moves nothing.
\<close>

theorem Normalize_unregistered_type_counterexample:
  "Normalize lowerASCII
     [\<lparr>Type = ''x'', Value = ''a''\<rparr>, \<lparr>Type = ''dns'', Value = ''b''\<rparr>, \<lparr>Type = ''x'', Value = ''a''\<rparr>]
   = [\<lparr>Type = ''x'', Value = ''a''\<rparr>, \<lparr>Type = ''dns'', Value = ''b''\<rparr>,
      \<lparr>Type = ''x'', Value = ''a''\<rparr>]
   \<and> \<not> distinct (Normalize lowerASCII
        [\<lparr>Type = ''x'', Value = ''a''\<rparr>, \<lparr>Type = ''dns'', Value = ''b''\<rparr>,
         \<lparr>Type = ''x'', Value = ''a''\<rparr>])"
  by code_simp

section \<open>The issuer maps\<close>

lemma loop_fails_iff:
  "(\<exists>e. makeIssuerMaps_loop xs a n = Inl e) \<longleftrightarrow>
     \<not> (distinct (map NameID xs) \<and> (\<forall>x\<in>set xs. n (NameID x) = None))"
proof (induction xs arbitrary: a n)
  case Nil
  then show ?case by simp
next
  case (Cons x xs)
  show ?case
  proof (cases "n (NameID x) = None")
    case True
    define a1 where "a1 = (if IsActive x
               then a(KeyType x \<mapsto>
                      (case a (KeyType x) of None \<Rightarrow> [] | Some l \<Rightarrow> l) @ [x])
               else a)"
    have step: "makeIssuerMaps_loop (x # xs) a n = makeIssuerMaps_loop xs a1 (n(NameID x \<mapsto> x))"
      using True by (simp add: a1_def)
    have "(\<exists>e. makeIssuerMaps_loop (x # xs) a n = Inl e) \<longleftrightarrow>
        (\<exists>e. makeIssuerMaps_loop xs a1 (n(NameID x \<mapsto> x)) = Inl e)"
      by (simp only: step)
    also have "\<dots> \<longleftrightarrow>
        \<not> (distinct (map NameID xs) \<and> (\<forall>y\<in>set xs. (n(NameID x \<mapsto> x)) (NameID y) = None))"
      by (rule Cons.IH)
    also have "\<dots> \<longleftrightarrow> \<not> (distinct (map NameID (x # xs)) \<and> (\<forall>y\<in>set (x # xs). n (NameID y) = None))"
    proof -
      have "(\<forall>y\<in>set xs. (n(NameID x \<mapsto> x)) (NameID y) = None) \<longleftrightarrow>
            (NameID x \<notin> NameID ` set xs \<and> (\<forall>y\<in>set xs. n (NameID y) = None))"
        by (auto simp: image_iff split: if_splits)
      with True show ?thesis by auto
    qed
    finally show ?thesis .
  next
    case False
    then show ?thesis by auto
  qed
qed

lemma loop_keeps:
  "makeIssuerMaps_loop xs a n = Inr (a', n') \<Longrightarrow> n k = Some v \<Longrightarrow> n' k = Some v"
proof (induction xs arbitrary: a n)
  case Nil
  then show ?case by simp
next
  case (Cons x xs)
  from Cons.prems have none: "n (NameID x) = None"
    by (auto split: if_splits)
  with Cons.prems have "k \<noteq> NameID x" by auto
  with Cons.prems none show ?case
    by (auto simp: Let_def intro: Cons.IH split: if_splits)
qed

lemma loop_byNameID:
  "makeIssuerMaps_loop xs a n = Inr (a', n') \<Longrightarrow> x \<in> set xs \<Longrightarrow> n' (NameID x) = Some x"
proof (induction xs arbitrary: a n)
  case Nil
  then show ?case by simp
next
  case (Cons y ys)
  from Cons.prems have none: "n (NameID y) = None"
    by (auto split: if_splits)
  show ?case
  proof (cases "x = y")
    case True
    with Cons.prems none show ?thesis
      by (auto simp: Let_def split: if_splits intro: loop_keeps)
  next
    case False
    with Cons.prems none show ?thesis
      by (auto simp: Let_def split: if_splits intro: Cons.IH)
  qed
qed

lemma loop_dom:
  "makeIssuerMaps_loop xs a n = Inr (a', n') \<Longrightarrow> dom n' = dom n \<union> NameID ` set xs"
proof (induction xs arbitrary: a n)
  case Nil
  then show ?case by simp
next
  case (Cons y ys)
  from Cons.prems have none: "n (NameID y) = None"
    by (auto split: if_splits)
  with Cons.prems obtain a1 where
    "makeIssuerMaps_loop ys a1 (n(NameID y \<mapsto> y)) = Inr (a', n')"
    by (auto simp: Let_def split: if_splits)
  from Cons.IH [OF this] show ?case by auto
qed

lemma loop_byAlg:
  "makeIssuerMaps_loop xs a n = Inr (a', n') \<Longrightarrow>
   poolOf a' alg = poolOf a alg @ activeOf alg xs"
proof (induction xs arbitrary: a n)
  case Nil
  then show ?case by (simp add: activeOf_def)
next
  case (Cons y ys)
  from Cons.prems have none: "n (NameID y) = None"
    by (auto split: if_splits)
  show ?case
  proof (cases "IsActive y")
    case True
    with Cons.prems none have
      "makeIssuerMaps_loop ys (a(KeyType y \<mapsto> poolOf a (KeyType y) @ [y])) (n(NameID y \<mapsto> y))
       = Inr (a', n')"
      by (simp add: poolOf_def)
    from Cons.IH [OF this] True show ?thesis
      by (auto simp: poolOf_def activeOf_def)
  next
    case False
    with Cons.prems none have "makeIssuerMaps_loop ys a (n(NameID y \<mapsto> y)) = Inr (a', n')"
      by simp
    from Cons.IH [OF this] False show ?thesis
      by (auto simp: activeOf_def)
  qed
qed

lemma pool_empty_iff:
  "(case m alg of None \<Rightarrow> True | Some i \<Rightarrow> length i = 0) = (poolOf m alg = [])"
  by (simp add: poolOf_def split: option.splits)

text \<open>
  Claim C8. \<^verbatim>\<open>makeIssuerMaps\<close> returns an error exactly when two issuers of the list share
  a NameID, or no issuer is active with an ECDSA key, or none is active with an RSA key. When
  it succeeds, \<^verbatim>\<open>byNameID\<close> maps the NameID of every issuer of the list, active or not, to
  that issuer and has no other key, and \<^verbatim>\<open>byAlg\<close> gives for each algorithm exactly the
  active issuers of that key type.
\<close>

theorem makeIssuerMaps_correct:
  "((\<exists>err. makeIssuerMaps boulderIssuers = Inl err) \<longleftrightarrow>
      (\<not> distinct (map NameID boulderIssuers) \<or> activeOf ECDSA boulderIssuers = [] \<or> activeOf RSA boulderIssuers = []))
   \<and> (\<forall>m. makeIssuerMaps boulderIssuers = Inr m \<longrightarrow>
         (\<forall>i\<in>set boulderIssuers. byNameID m (NameID i) = Some i)
       \<and> dom (byNameID m) = NameID ` set boulderIssuers
       \<and> (\<forall>alg. poolOf (byAlg m) alg = activeOf alg boulderIssuers))"
proof (cases "makeIssuerMaps_loop boulderIssuers Map.empty Map.empty")
  case (Inl e)
  then have "\<exists>e. makeIssuerMaps_loop boulderIssuers Map.empty Map.empty = Inl e" by blast
  then have "\<not> distinct (map NameID boulderIssuers)"
    by (simp add: loop_fails_iff)
  with Inl show ?thesis
    by (simp add: makeIssuerMaps_def)
next
  case (Inr p)
  obtain a n where p: "p = (a, n)" by (cases p)
  have loop: "makeIssuerMaps_loop boulderIssuers Map.empty Map.empty = Inr (a, n)"
    using Inr p by simp
  have "\<not> (\<exists>e. makeIssuerMaps_loop boulderIssuers Map.empty Map.empty = Inl e)"
    using loop by simp
  then have dist: "distinct (map NameID boulderIssuers)"
    by (simp add: loop_fails_iff)
  have pool: "poolOf a alg = activeOf alg boulderIssuers" for alg
    using loop_byAlg [OF loop, of alg] by (simp add: poolOf_def)
  have ids: "\<forall>i\<in>set boulderIssuers. n (NameID i) = Some i"
    using loop_byNameID [OF loop] by blast
  have dom: "dom n = NameID ` set boulderIssuers"
    using loop_dom [OF loop] by simp
  show ?thesis
    using loop dist ids dom pool
    by (auto simp: makeIssuerMaps_def pool_empty_iff)
qed

text \<open>The theorem at the three issuers: the retired one is found by NameID only.\<close>

theorem makeIssuerMaps_correct_witness:
  "\<exists>m. makeIssuerMaps [rsaA, ecdsaA, rsaOld] = Inr m
     \<and> byNameID m 3 = Some rsaOld
     \<and> poolOf (byAlg m) RSA = [rsaA]
     \<and> poolOf (byAlg m) ECDSA = [ecdsaA]
     \<and> dom (byNameID m) = {1, 2, 3}"
proof -
  have "\<exists>m. makeIssuerMaps [rsaA, ecdsaA, rsaOld] = Inr m"
    by (simp add: makeIssuerMaps_def rsaA_def ecdsaA_def rsaOld_def)
  then obtain m where m: "makeIssuerMaps [rsaA, ecdsaA, rsaOld] = Inr m" ..
  with makeIssuerMaps_correct [of "[rsaA, ecdsaA, rsaOld]"]
  have "(\<forall>i\<in>set [rsaA, ecdsaA, rsaOld]. byNameID m (NameID i) = Some i)
       \<and> dom (byNameID m) = NameID ` set [rsaA, ecdsaA, rsaOld]
       \<and> (\<forall>alg. poolOf (byAlg m) alg = activeOf alg [rsaA, ecdsaA, rsaOld])"
    by blast
  then have "byNameID m 3 = Some rsaOld \<and> poolOf (byAlg m) RSA = [rsaA]
     \<and> poolOf (byAlg m) ECDSA = [ecdsaA] \<and> dom (byNameID m) = {1, 2, 3}"
    by (auto simp: activeOf_def rsaA_def ecdsaA_def rsaOld_def)
  with m show ?thesis by blast
qed

section \<open>What a run leaves behind\<close>

lemma inner_outcome:
  assumes run: "issuePrecertificateInner env ca issueReq certProfile serial nb na s = (r, s')"
  shows "\<exists>evs. trace s' = trace s @ evs \<and> innerOutcome (metrics s) r evs (metrics s')"
  using run
  unfolding issuePrecertificateInner_def call_def ask_def Let_def
  by (auto split: sum.splits option.splits prod.splits if_splits simp: innerOutcome.intros)

lemma final_outcome:
  assumes run: "issueCertificateForPrecertificate env ca certProfile precertDER sctBytes
                  regID orderID s = (r, s')"
  shows "\<exists>evs. trace s' = trace s @ evs \<and> finalOutcome (metrics s) r evs (metrics s')"
  using run
  unfolding issueCertificateForPrecertificate_def call_def ask_def Let_def
  by (auto split: sum.splits option.splits prod.splits if_splits simp: finalOutcome.intros)

lemma generateSerialNumber_trace:
  "generateSerialNumber env ca s = (r, s') \<Longrightarrow> trace s' = trace s \<and> metrics s' = metrics s"
  unfolding generateSerialNumber_def ask_def Let_def
  by (auto split: sum.splits option.splits prod.splits if_splits)

lemma precert_outcome:
  assumes run: "issuePrecertificate env ca certProfile issueReq s = (r, s')"
  shows "\<exists>evs. trace s' = trace s @ evs \<and> precertOutcome (metrics s) r evs (metrics s')"
  using run
  unfolding issuePrecertificate_def call_def ask_def Let_def
  by (auto split: sum.splits option.splits prod.splits if_splits
           dest!: generateSerialNumber_trace inner_outcome simp: precertOutcome.intros)

lemma issuance_outcome:
  assumes run: "IssueCertificate env ca issueReq s = (r, s')"
  shows "\<exists>evs. trace s' = trace s @ evs \<and> issuanceOutcome (metrics s) r evs (metrics s')"
  using run
  unfolding IssueCertificate_def call_def ask_def Let_def
  by (auto split: sum.splits option.splits prod.splits if_splits
           dest!: precert_outcome final_outcome simp: issuanceOutcome.intros)

text \<open>
  Claim C2. In every run of \<^verbatim>\<open>IssueCertificate\<close> the calls made are an initial segment of
  AddSerial, Prepare, AddPrecertificate, Issue, SetCertificateStatusReady, GetSCTs,
  GetCertificate, Prepare, Issue, AddCertificate, and a call whose answer stops the issuance
  is the last call of the run: nothing of the chain is invoked after a failure. A run that
  succeeds has made exactly these calls, so each Storage Authority operation once and in
  this order; AddPrecertificate carried the lint DER that Prepare returned, and the Issue
  between AddPrecertificate and SetCertificateStatusReady signed the token of that Prepare.
\<close>

theorem issuance_call_order:
  assumes run: "IssueCertificate env ca issueReq s = (r, s')"
  shows "\<exists>evs. trace s' = trace s @ evs
           \<and> prefixOf (map kind evs) issuanceCalls
           \<and> stopsLast evs
           \<and> (\<forall>certDER. r = Inr certDER \<longrightarrow>
                  map kind evs = issuanceCalls \<and> completeIssuance certDER evs)"
proof -
  from issuance_outcome [OF run] obtain evs
    where tr: "trace s' = trace s @ evs"
      and out: "issuanceOutcome (metrics s) r evs (metrics s')"
    by blast
  from out have "prefixOf (map kind evs) issuanceCalls \<and> stopsLast evs
           \<and> (\<forall>certDER. r = Inr certDER \<longrightarrow>
                  map kind evs = issuanceCalls \<and> completeIssuance certDER evs)"
    by (auto elim!: issuanceOutcome.cases precertOutcome.cases innerOutcome.cases
                    finalOutcome.cases
             simp: issuanceCalls_def completeIssuance_def split: option.splits)
  with tr show ?thesis by blast
qed

text \<open>
  Claim C5. When \<^verbatim>\<open>Prepare\<close> fails in the precertificate path, the result is the
  InternalServerError "failed to prepare precertificate signing: ..." with the message of the
  failure; the run has called AddSerial and Prepare and nothing else, so neither
  AddPrecertificate nor Issue; and the counter \<^verbatim>\<open>lint_errors\<close> has grown by one if the
  failure is a linting error, and not at all otherwise.
\<close>

theorem prepare_failure:
  assumes run: "issuePrecertificate env ca certProfile issueReq s = (r, s')"
    and tr: "trace s' = trace s @ evs"
    and fail: "EvPrepare issuer p req (Inl err) \<in> set evs"
  shows "r = Inl (InternalServerError
                   (''failed to prepare precertificate signing: '' @ Error err))
       \<and> (\<exists>serialReq. evs = [EvAddSerial serialReq None, EvPrepare issuer p req (Inl err)])
       \<and> lintErrorCount (metrics s') =
           lintErrorCount (metrics s) + (if errors_Is err ErrLinting then 1 else 0)"
proof -
  from precert_outcome [OF run] tr
  have "precertOutcome (metrics s) r evs (metrics s')"
    by auto
  then show ?thesis
    using fail
    by (auto elim!: precertOutcome.cases innerOutcome.cases)
qed

section \<open>The serial number\<close>

lemma natOfBytes_snoc: "natOfBytes (bs @ [b]) = natOfBytes bs * 256 + unat b"
  by (simp add: natOfBytes_def)

lemma SetBytes_nat: "SetBytes buf = int (natOfBytes buf)"
proof (induction buf rule: rev_induct)
  case Nil
  then show ?case by (simp add: SetBytes_def natOfBytes_def)
next
  case (snoc b bs)
  then show ?case
    by (simp add: SetBytes_def natOfBytes_def)
qed

lemma natOfBytes_pos: "bs \<noteq> [] \<Longrightarrow> hd bs \<noteq> 0 \<Longrightarrow> 0 < natOfBytes bs"
proof (induction bs rule: rev_induct)
  case Nil
  then show ?case by simp
next
  case (snoc b bs)
  show ?case
  proof (cases "bs = []")
    case True
    with snoc.prems show ?thesis
      by (simp add: natOfBytes_def unat_gt_0)
  next
    case False
    with snoc show ?thesis
      by (simp add: natOfBytes_snoc)
  qed
qed

lemma natBytes_step: "0 < m \<or> b \<noteq> 0 \<Longrightarrow> natBytes (m * 256 + unat (b :: byte)) = natBytes m @ [b]"
proof -
  assume a: "0 < m \<or> b \<noteq> 0"
  have lt: "unat b < 256"
    using unsigned_less [of b] by simp
  have nz: "m * 256 + unat b \<noteq> 0"
    using a by (auto simp: unat_eq_0)
  have d: "(m * 256 + unat b) div 256 = m" using lt by simp
  have r: "unat b mod 256 = unat b" using lt by simp
  show ?thesis
    using nz by (subst natBytes.simps) (simp add: d r)
qed

lemma natBytes_natOfBytes: "bs = [] \<or> hd bs \<noteq> 0 \<Longrightarrow> natBytes (natOfBytes bs) = bs"
proof (induction bs rule: rev_induct)
  case Nil
  then show ?case by (simp add: natOfBytes_def natBytes.simps)
next
  case (snoc b bs)
  show ?case
  proof (cases "bs = []")
    case True
    with snoc.prems have "b \<noteq> 0" by simp
    then have "natBytes (0 * 256 + unat b) = natBytes 0 @ [b]"
      by (intro natBytes_step) simp
    with True show ?thesis by (simp add: natOfBytes_def natBytes.simps [of 0])
  next
    case False
    with snoc.prems have hd: "hd bs \<noteq> 0" by simp
    with False have "0 < natOfBytes bs" by (rule natOfBytes_pos)
    then have "natBytes (natOfBytes bs * 256 + unat b) = natBytes (natOfBytes bs) @ [b]"
      by (intro natBytes_step) simp
    with snoc.IH hd show ?thesis by (simp add: natOfBytes_snoc)
  qed
qed

lemma Bytes_SetBytes: "bs = [] \<or> hd bs \<noteq> 0 \<Longrightarrow> Bytes (SetBytes bs) = bs"
  by (simp add: Bytes_def SetBytes_nat natBytes_natOfBytes)

lemma word_ge_1: "(1 \<le> (p :: byte)) = (p \<noteq> 0)"
  using word_le_sub1 [of p] by auto

lemma high_bit_clear: "(p :: byte) \<le> 0x7f \<Longrightarrow> \<not> bit p 7"
proof -
  assume "p \<le> 0x7f"
  then have "unat p \<le> 127" by (simp add: word_le_nat_alt)
  then have "unat p div 2 ^ 7 = 0" by simp
  then have "\<not> bit (unat p) 7" by (simp add: bit_iff_odd)
  then show "\<not> bit p 7" by (simp add: bit_unsigned_iff)
qed

lemma fill: "take (min (length written) 17) written @ replicate (17 - min (length written) 17) (0::byte)
           = take 17 (written @ replicate 17 0)"
  by (cases "length written \<le> 17") (simp_all add: min_def)

lemma fill2: "take (min (length written) 17) written @ replicate (17 - min (length written) 17) (0::byte)
           = take 17 written @ replicate (17 - length written) 0"
  by (cases "length written \<le> 17") (simp_all add: min_def)

lemma buf: "replicate (randBits div 8 + 1) (0 :: byte) = 0 # replicate 17 0"
proof -
  have "randBits div 8 + 1 = Suc 17" by (simp add: randBits_def)
  then show ?thesis by (simp only: replicate_Suc)
qed

lemma buf_after:
  "take 1 ((0 # replicate 17 (0::byte))[0 := p]) @ take (min (length written) 17) written
     @ drop (1 + min (length written) 17) ((0 # replicate 17 0)[0 := p])
   = p # take 17 (written @ replicate 17 0)"
  using fill [of written] by simp

lemma generateSerialNumber_bytes:
  assumes "generateSerialNumber env ca s = (Inr serial, s')"
  shows "serial = SetBytes (prefix ca # drawn env s)"
proof -
  obtain written e w' where r: "rand_Read env 17 (world s) = ((written, e), w')"
    by (cases "rand_Read env 17 (world s)") auto
  have n: "length (drop 1 ((0 # replicate 17 (0::byte))[0 := prefix ca])) = 17"
    by simp
  show ?thesis
  proof (cases e)
    case None
    with assms r show ?thesis
      unfolding generateSerialNumber_def ask_def buf Let_def n
      by (auto simp: drawn_def fill2)
  next
    case (Some err)
    with assms r show ?thesis
      unfolding generateSerialNumber_def ask_def buf Let_def n
      by simp
  qed
qed

lemma New_prefix:
  "NewCertificateAuthorityImpl env sa' sctService boulderIssuers certificateProfiles
       serialPrefix maxNames' clk' = Inr ca \<Longrightarrow>
   prefix ca = serialPrefix \<and> 1 \<le> serialPrefix \<and> serialPrefix \<le> 0x7f"
  by (auto simp: NewCertificateAuthorityImpl_def word_ge_1 not_less split: if_splits sum.splits)

text \<open>
  Claim C4, with the lengths that the code has. For a CA object that
  \<^verbatim>\<open>NewCertificateAuthorityImpl\<close> has built, the prefix is between 0x01 and 0x7f, and every
  serial that \<^verbatim>\<open>generateSerialNumber\<close> returns is positive and has a big-endian
  representation of exactly 18 bytes: byte 0 is the configured prefix, with its high bit
  clear, and the other 17 bytes (136 bits) are the bytes drawn from \<^verbatim>\<open>rand.Read\<close>.
\<close>

theorem serial_shape:
  assumes new: "NewCertificateAuthorityImpl env sa' sctService boulderIssuers
                  certificateProfiles serialPrefix maxNames' clk' = Inr ca"
    and gen: "generateSerialNumber env ca s = (Inr serial, s')"
  shows "1 \<le> serialPrefix \<and> serialPrefix \<le> 0x7f
       \<and> length (Bytes serial) = 18
       \<and> Bytes serial ! 0 = serialPrefix
       \<and> \<not> bit (Bytes serial ! 0) 7
       \<and> 0 < serial
       \<and> drop 1 (Bytes serial) = drawn env s
       \<and> length (drawn env s) = 17"
proof -
  from New_prefix [OF new] have p: "prefix ca = serialPrefix" "1 \<le> serialPrefix" "serialPrefix \<le> 0x7f"
    by simp_all
  from p(2) have nz: "serialPrefix \<noteq> 0" by (simp add: word_ge_1)
  have ser: "serial = SetBytes (serialPrefix # drawn env s)"
    using generateSerialNumber_bytes [OF gen] p(1) by simp
  have b: "Bytes serial = serialPrefix # drawn env s"
    unfolding ser using nz by (intro Bytes_SetBytes) simp
  have len: "length (drawn env s) = 17"
    by (simp add: drawn_def)
  have "0 < natOfBytes (serialPrefix # drawn env s)"
    using nz by (intro natOfBytes_pos) simp_all
  then have pos: "0 < serial"
    by (simp add: ser SetBytes_nat)
  show ?thesis
    using p b len pos high_bit_clear [OF p(3)] by simp
qed

section \<open>Runs on the sample configuration\<close>

lemma sample_identifiers:
  "fromX509 lowerASCII f ''cn.example'' [''San.example''] []
   = [\<lparr>Type = ''dns'', Value = ''cn.example''\<rparr>, \<lparr>Type = ''dns'', Value = ''san.example''\<rparr>]"
  by code_simp

lemma sample_values:
  "ToValues f
     [\<lparr>Type = ''dns'', Value = ''cn.example''\<rparr>, \<lparr>Type = ''dns'', Value = ''san.example''\<rparr>]
   = Inr ([''cn.example'', ''san.example''], [])"
  by code_simp

lemma sample_cn: "lowerASCII ''cn.example'' = ''cn.example''"
  by code_simp

lemma sample_tbs: "tbsCertIsDeterministic lintCert signedCert = None"
  by code_simp

lemma sampleEnv_fields:
  "rand_Read sampleEnv = (\<lambda>n w. ((replicate n 0xAB, None), w))"
  "mrand_IntN sampleEnv = (\<lambda>n w. (0, w))"
  "SerialToString sampleEnv = (\<lambda>serial. hex (Bytes serial))"
  "NewProfile sampleEnv = (\<lambda>config. case config of ProfileConfig n \<Rightarrow> Inr (Profile n))"
  "GenerateValidity sampleEnv = (\<lambda>p now w. ((now, now + 90), w))"
  "ParseCertificateRequest sampleEnv =
     (\<lambda>der. if der = [1] then Inr sampleCSR else Inl (errors_New ''asn1: syntax error''))"
  "VerifyCSR sampleEnv = (\<lambda>csr maxNames w. (None, w))"
  "MarshalPKIXPublicKey sampleEnv = (\<lambda>pk. case pk of Key k \<Rightarrow> Inr k)"
  "Unmarshal_BitString sampleEnv = (\<lambda>der. Inr der)"
  "sha256_Sum256 sampleEnv = (\<lambda>bits. replicate 32 0x11)"
  "IP_String sampleEnv = (\<lambda>ip. ''192.0.2.1'')"
  "ParseIP sampleEnv = (\<lambda>text. Some [192, 0, 2, 1])"
  "CNFromCSR sampleEnv = (\<lambda>csr. lowerASCII (csr_Subject_CommonName csr))"
  "strings_ToLower sampleEnv = lowerASCII"
  "Prepare sampleEnv = (\<lambda>issuer p req w. (Inr (lintCert, Token 1), w))"
  "Issue sampleEnv = (\<lambda>issuer token w. (Inr signedCert, w))"
  "ParseCertificate sampleEnv = (\<lambda>der. Inr \<lparr>SerialNumber = 5, cert_Issuer = ''CN=int-rsa-a''\<rparr>)"
  "cttls_Unmarshal sampleEnv = (\<lambda>der. Inr (SCT der))"
  "IssuerNameID_of sampleEnv = (\<lambda>cert. 1)"
  "RequestFromPrecert sampleEnv =
     (\<lambda>cert scts. Inr \<lparr>PublicKey = Key [9, 9], SubjectKeyId = [], Serial = [5],
                           DNSNames = [''san.example''], IPAddresses = [], CommonName = [],
                           IncludeCTPoison = False, NotBefore = 0, NotAfter = 90,
                           sctList = scts\<rparr>)"
  by (simp_all add: sampleEnv_def)

lemma sampleCA_fields:
  "sa sampleCA = sampleSA"
  "sctClient sampleCA = Some sampleSCTs"
  "byAlg (issuers sampleCA) = [RSA \<mapsto> [rsaA], ECDSA \<mapsto> [ecdsaA]]"
  "byNameID (issuers sampleCA) = [1 \<mapsto> rsaA, 2 \<mapsto> ecdsaA, 3 \<mapsto> rsaOld]"
  "certProfiles sampleCA = [''classic'' \<mapsto> \<lparr>name = ''classic'', profile = Profile 1\<rparr>]"
  "prefix sampleCA = 0x7f"
  "maxNames sampleCA = 100"
  "clk sampleCA = sampleClock"
  by (simp_all add: sampleCA_def)

lemma sampleSA_fields:
  "AddSerial sampleSA = (\<lambda>req w. (None, w))"
  "AddPrecertificate sampleSA = (\<lambda>req w. (None, w))"
  "SetCertificateStatusReady sampleSA = (\<lambda>serial w. (None, w))"
  "GetCertificate sampleSA = (\<lambda>serial w. (Some notFound, w))"
  "AddCertificate sampleSA = (\<lambda>req w. (None, w))"
  by (simp_all add: sampleSA_def)

lemma sampleCSR_fields:
  "csr_PublicKeyAlgorithm sampleCSR = RSA"
  "csr_PublicKey sampleCSR = Key [9, 9]"
  "csr_Subject_CommonName sampleCSR = ''cn.example''"
  "csr_DNSNames sampleCSR = [''San.example'']"
  "csr_IPAddresses sampleCSR = []"
  by (simp_all add: sampleCSR_def)

lemma sampleRequest_fields:
  "Csr sampleRequest = [1]"
  "RegistrationID sampleRequest = 7"
  "OrderID sampleRequest = 9"
  "CertProfileName sampleRequest = ''classic''"
  by (simp_all add: sampleRequest_def)

lemma replicate_18: "replicate 18 x = x # replicate 17 x"
proof -
  have "(18::nat) = Suc 17" by simp
  then show ?thesis by (simp only: replicate_Suc)
qed

lemma sample_serial:
  "rand_Read env = (\<lambda>n w. ((replicate n 0xAB, None), w)) \<Longrightarrow> prefix ca = 0x7f \<Longrightarrow>
   generateSerialNumber env ca s = (Inr sampleSerial, s\<lparr>world := world s\<rparr>)"
  by (simp add: generateSerialNumber_def ask_def Let_def randBits_def replicate_18
      sampleSerial_def)

lemmas sample_fields =
  sampleEnv_fields sampleCA_fields sampleSA_fields sampleCSR_fields sampleRequest_fields
  sampleSCTs_def sampleClock_def rsaA_def notFound_def idle_def

lemmas run_defs =
  IssueCertificate_def issuePrecertificate_def issuePrecertificateInner_def
  issueCertificateForPrecertificate_def call_def ask_def Let_def generateSKID_def
  FromCSR_def IsNilOrZero_bytes_def IsNilOrZero_int_def errors_Is_def

lemmas variant_defs = lintingEnv_def duplicateCA_def brokenCA_def unknownRequest_def classic_def

text \<open>The theorem of claim C2 at the run of the sample request, which succeeds.\<close>

theorem issuance_call_order_witness:
  "\<exists>evs. trace (snd (IssueCertificate sampleEnv sampleCA sampleRequest idle)) = evs
     \<and> map kind evs = issuanceCalls \<and> stopsLast evs \<and> completeIssuance signedCert evs"
proof -
  have "fst (IssueCertificate sampleEnv sampleCA sampleRequest idle) = Inr signedCert"
    by (simp add: run_defs sample_serial sample_identifiers sample_values sample_cn sample_tbs
        sample_fields)
  then have run: "IssueCertificate sampleEnv sampleCA sampleRequest idle
      = (Inr signedCert, snd (IssueCertificate sampleEnv sampleCA sampleRequest idle))"
    by (simp add: prod_eq_iff)
  from issuance_call_order [OF run] show ?thesis
    by (simp add: idle_def)
qed

lemma linting_run:
  "issuePrecertificate lintingEnv sampleCA classic sampleRequest idle
   = (Inl (InternalServerError
            (''failed to prepare precertificate signing: '' @ Error lintFailure)),
      idle\<lparr>world := 2,
           trace := [EvAddSerial sampleSerialRequest None,
                     EvPrepare rsaA (Profile 1) sampleIssuanceRequest (Inl lintFailure)],
           metrics := (metrics idle)\<lparr>lintErrorCount := 1\<rparr>\<rparr>)"
  by (simp add: run_defs sample_serial sample_identifiers sample_values sample_cn
      sample_fields variant_defs sampleSerialRequest_def sampleIssuanceRequest_def
      lintFailure_def)

text \<open>The theorem of claim C5 at the issuer whose linter objects: the counter goes from 0 to 1.\<close>

theorem prepare_failure_witness:
  "fst (issuePrecertificate lintingEnv sampleCA classic sampleRequest idle)
     = Inl (InternalServerError
             (''failed to prepare precertificate signing: '' @ Error lintFailure))
   \<and> trace (snd (issuePrecertificate lintingEnv sampleCA classic sampleRequest idle))
     = [EvAddSerial sampleSerialRequest None,
        EvPrepare rsaA (Profile 1) sampleIssuanceRequest (Inl lintFailure)]
   \<and> lintErrorCount
        (metrics (snd (issuePrecertificate lintingEnv sampleCA classic sampleRequest idle))) = 1"
proof -
  let ?evs = "[EvAddSerial sampleSerialRequest None,
               EvPrepare rsaA (Profile 1) sampleIssuanceRequest (Inl lintFailure)]"
  let ?s = "idle\<lparr>world := 2, trace := ?evs,
                 metrics := (metrics idle)\<lparr>lintErrorCount := 1\<rparr>\<rparr>"
  have tr: "trace ?s = trace idle @ ?evs"
    by (simp add: idle_def)
  have fail: "EvPrepare rsaA (Profile 1) sampleIssuanceRequest (Inl lintFailure) \<in> set ?evs"
    by simp
  from prepare_failure [OF linting_run tr fail] show ?thesis
    unfolding linting_run by (simp add: idle_def lintFailure_def errors_Is_def)
qed

lemma sample_new:
  "NewCertificateAuthorityImpl sampleEnv sampleSA (Some sampleSCTs) [rsaA, ecdsaA, rsaOld]
     [(''classic'', ProfileConfig 1)] 0x7f 100 sampleClock = Inr sampleCA"
  by (simp add: NewCertificateAuthorityImpl_def makeCertificateProfilesMap_def
      makeIssuerMaps_def sampleCA_def sampleEnv_fields rsaA_def ecdsaA_def rsaOld_def)

lemma sample_serial_bytes: "Bytes sampleSerial = 0x7f # replicate 17 0xAB"
  unfolding sampleSerial_def by (intro Bytes_SetBytes) simp

text \<open>The theorem of claim C4 at the sample CA, whose random source answers 17 bytes 0xAB.\<close>

theorem serial_shape_witness:
  "fst (generateSerialNumber sampleEnv sampleCA idle) = Inr sampleSerial
   \<and> length (Bytes sampleSerial) = 18
   \<and> Bytes sampleSerial ! 0 = 0x7f
   \<and> drop 1 (Bytes sampleSerial) = replicate 17 0xAB"
proof -
  have gen: "generateSerialNumber sampleEnv sampleCA idle
             = (Inr sampleSerial, idle\<lparr>world := world idle\<rparr>)"
    by (rule sample_serial) (simp_all add: sampleEnv_fields sampleCA_fields)
  have "drawn sampleEnv idle = replicate 17 0xAB"
    by (simp add: drawn_def sampleEnv_fields)
  with serial_shape [OF sample_new gen] show ?thesis
    by (simp add: gen)
qed

text \<open>
  Claim C4 as it is stated has the serial 17 bytes long, with 16 random bytes. The serial
  of the sample CA has 18 bytes, 17 of them random: \<^verbatim>\<open>randBits/8+1\<close> is 18.
\<close>

theorem serial_length_counterexample:
  "fst (generateSerialNumber sampleEnv sampleCA idle) = Inr sampleSerial
   \<and> Bytes sampleSerial = 0x7f # replicate 17 0xAB
   \<and> length (Bytes sampleSerial) = 18
   \<and> length (drop 1 (Bytes sampleSerial)) = 17"
proof -
  have "generateSerialNumber sampleEnv sampleCA idle
        = (Inr sampleSerial, idle\<lparr>world := world idle\<rparr>)"
    by (rule sample_serial) (simp_all add: sampleEnv_fields sampleCA_fields)
  then show ?thesis
    by (simp add: sample_serial_bytes)
qed

section \<open>Refusals\<close>

text \<open>
  Claim C3. In a run of \<^verbatim>\<open>issueCertificateForPrecertificate\<close> that has called
  \<^verbatim>\<open>GetCertificate\<close>, the precertificate has parsed and the call was for its serial. When
  the call answered without an error, so that a final certificate exists already, the result
  is the InternalServerError "issuance of duplicate final certificate requested: " with the
  serial, and the lookup is the only call of the run: no Prepare, no Issue, no
  AddCertificate. When it answered an error that is not a NotFound error, the result is an
  error too, and again the lookup is the only call: the run ends before any signing.
\<close>

theorem duplicate_final:
  assumes run: "issueCertificateForPrecertificate env ca certProfile precertDER sctBytes
                  regID orderID s = (r, s')"
    and tr: "trace s' = trace s @ evs"
    and look: "EvGetCertificate serialHex answer \<in> set evs"
  shows "(\<exists>precert. ParseCertificate env precertDER = Inr precert
            \<and> serialHex = SerialToString env (SerialNumber precert))
       \<and> (answer = None \<longrightarrow>
            r = Inl (InternalServerError
                      (''issuance of duplicate final certificate requested: '' @ serialHex))
            \<and> evs = [EvGetCertificate serialHex answer])
       \<and> (\<forall>err. answer = Some err \<and> \<not> errors_Is err (BoulderErrorType NotFound) \<longrightarrow>
            r = Inl (Errorf (''error checking for duplicate issuance of '' @ serialHex
                             @ '': '' @ Error err))
            \<and> evs = [EvGetCertificate serialHex answer])"
  using run tr look
  unfolding issueCertificateForPrecertificate_def call_def ask_def Let_def
  by (auto split: sum.splits option.splits prod.splits if_splits)

text \<open>
  Claim C6, with the message that the code has. When the CSR parses and passes
  \<^verbatim>\<open>VerifyCSR\<close>, the pool of issuers for its key algorithm is not empty, and the issuer
  drawn from the pool has a certificate whose NotAfter is before the NotAfter of the
  certificate to be issued, \<^verbatim>\<open>issuePrecertificateInner\<close> returns the InternalServerError
  "cannot issue a certificate that expires after the issuer certificate". The state it returns
  differs from the one it started in by the world alone: the trace is the same, so there was
  no Prepare, no AddPrecertificate and no Issue.
\<close>

theorem issuer_expiry:
  assumes "ParseCertificateRequest env (Csr issueReq) = Inr csr"
    and "VerifyCSR env csr (maxNames ca) (world s) = (None, w1)"
    and "byAlg (issuers ca) (csr_PublicKeyAlgorithm csr) = Some issuerPool"
    and "issuerPool \<noteq> []"
    and "mrand_IntN env (length issuerPool) w1 = (i, w2)"
    and "Cert_NotAfter (issuerPool ! (i mod length issuerPool)) < notAfter"
  shows "issuePrecertificateInner env ca issueReq certProfile serial notBefore notAfter s
       = (Inl (InternalServerError
                ''cannot issue a certificate that expires after the issuer certificate''),
          s\<lparr>world := w2\<rparr>)"
  using assms
  unfolding issuePrecertificateInner_def ask_def Let_def
  by simp

text \<open>
  Claim C7, with the kind of error that the code has. When the profile named in the request
  is not configured, \<^verbatim>\<open>IssueCertificate\<close> returns an error and the state it started in: it
  has called nobody, so there is no write to the Storage Authority. When moreover the request
  is complete and an SCT service is set, the error is the one that \<^verbatim>\<open>fmt.Errorf\<close> builds
  from "the CA is incapable of using a profile named " and the name: it carries no Boulder
  error kind, neither NotFound nor Malformed. (An incomplete request, or a nil SCT service,
  is refused before the profile is looked up, with another error.)
\<close>

theorem unknown_profile:
  assumes "certProfiles ca (CertProfileName issueReq) = None"
  shows "\<exists>err. IssueCertificate env ca issueReq s = (Inl err, s)
       \<and> (Csr issueReq \<noteq> [] \<and> RegistrationID issueReq \<noteq> 0 \<and> OrderID issueReq \<noteq> 0
            \<and> sctClient ca \<noteq> None \<longrightarrow>
          err = Errorf (''the CA is incapable of using a profile named ''
                        @ CertProfileName issueReq)
          \<and> \<not> errors_Is err (BoulderErrorType NotFound)
          \<and> \<not> errors_Is err (BoulderErrorType Malformed))"
  using assms
  unfolding IssueCertificate_def IsNilOrZero_bytes_def IsNilOrZero_int_def
  by (auto split: option.splits simp: Errorf_def errors_Is_def)

lemma sample_hex: "hex (Bytes 5) = ''05''"
  by (simp add: hex_def Bytes_def natBytes.simps hexDigit_def)

lemma duplicate_run:
  "issueCertificateForPrecertificate sampleEnv duplicateCA classic signedCert [[1, 2, 3]] 7 9 idle
   = (Inl (InternalServerError ''issuance of duplicate final certificate requested: 05''),
      idle\<lparr>world := 0, trace := [EvGetCertificate ''05'' None]\<rparr>)"
  by (simp add: run_defs sample_fields variant_defs sample_hex)

lemma broken_run:
  "issueCertificateForPrecertificate sampleEnv brokenCA classic signedCert [[1, 2, 3]] 7 9 idle
   = (Inl (Errorf ''error checking for duplicate issuance of 05: connection refused''),
      idle\<lparr>world := 0, trace := [EvGetCertificate ''05'' (Some unreachable)]\<rparr>)"
  by (simp add: run_defs sample_fields variant_defs sample_hex unreachable_def)

text \<open>
  The theorem of claim C3 at a Storage Authority that holds the final certificate already,
  and at one that cannot be reached.
\<close>

theorem duplicate_final_witness:
  "issueCertificateForPrecertificate sampleEnv duplicateCA classic signedCert [[1, 2, 3]] 7 9 idle
   = (Inl (InternalServerError ''issuance of duplicate final certificate requested: 05''),
      idle\<lparr>world := 0, trace := [EvGetCertificate ''05'' None]\<rparr>)
   \<and> issueCertificateForPrecertificate sampleEnv brokenCA classic signedCert [[1, 2, 3]] 7 9 idle
   = (Inl (Errorf ''error checking for duplicate issuance of 05: connection refused''),
      idle\<lparr>world := 0, trace := [EvGetCertificate ''05'' (Some unreachable)]\<rparr>)"
proof -
  have tr1: "trace (idle\<lparr>world := 0, trace := [EvGetCertificate ''05'' None]\<rparr>)
             = trace idle @ [EvGetCertificate ''05'' None]"
    by (simp add: idle_def)
  have tr2: "trace (idle\<lparr>world := 0, trace := [EvGetCertificate ''05'' (Some unreachable)]\<rparr>)
             = trace idle @ [EvGetCertificate ''05'' (Some unreachable)]"
    by (simp add: idle_def)
  have look1: "EvGetCertificate ''05'' None \<in> set [EvGetCertificate ''05'' None]"
    by simp
  have look2: "EvGetCertificate ''05'' (Some unreachable)
               \<in> set [EvGetCertificate ''05'' (Some unreachable)]"
    by simp
  from duplicate_final [OF duplicate_run tr1 look1] duplicate_final [OF broken_run tr2 look2]
  show ?thesis
    by (simp add: duplicate_run broken_run)
qed

text \<open>
  The theorem of claim C6 at a certificate that is to expire at 2000, while the only RSA
  issuer of the sample configuration expires at 1000.
\<close>

theorem issuer_expiry_witness:
  "issuePrecertificateInner sampleEnv sampleCA sampleRequest classic sampleSerial 0 2000 idle
   = (Inl (InternalServerError
            ''cannot issue a certificate that expires after the issuer certificate''),
      idle\<lparr>world := 0\<rparr>)"
proof -
  have "ParseCertificateRequest sampleEnv (Csr sampleRequest) = Inr sampleCSR"
    and "VerifyCSR sampleEnv sampleCSR (maxNames sampleCA) (world idle) = (None, 0)"
    and "byAlg (issuers sampleCA) (csr_PublicKeyAlgorithm sampleCSR) = Some [rsaA]"
    and "[rsaA] \<noteq> []"
    and "mrand_IntN sampleEnv (length [rsaA]) 0 = (0, 0)"
    and "Cert_NotAfter ([rsaA] ! (0 mod length [rsaA])) < 2000"
    by (simp_all add: sample_fields)
  then show ?thesis
    by (rule issuer_expiry)
qed

text \<open>
  Claim C6 as it is stated names the message "cannot issue past issuer expiry". That is
  not the message of the error that the code returns.
\<close>

theorem issuer_expiry_message_counterexample:
  "fst (issuePrecertificateInner sampleEnv sampleCA sampleRequest classic sampleSerial 0 2000
          idle)
   = Inl (InternalServerError
           ''cannot issue a certificate that expires after the issuer certificate'')
   \<and> InternalServerError
        ''cannot issue a certificate that expires after the issuer certificate''
     \<noteq> InternalServerError ''cannot issue past issuer expiry''"
  by (simp add: run_defs sample_fields InternalServerError_def)

text \<open>The theorem of claim C7 at a request for the profile \<^verbatim>\<open>nosuch\<close>.\<close>

theorem unknown_profile_witness:
  "IssueCertificate sampleEnv sampleCA unknownRequest idle
   = (Inl (Errorf ''the CA is incapable of using a profile named nosuch''), idle)"
proof -
  have none: "certProfiles sampleCA (CertProfileName unknownRequest) = None"
    by (simp add: sample_fields variant_defs)
  have complete: "Csr unknownRequest \<noteq> [] \<and> RegistrationID unknownRequest \<noteq> 0
      \<and> OrderID unknownRequest \<noteq> 0 \<and> sctClient sampleCA \<noteq> None"
    by (simp add: sample_fields variant_defs)
  from unknown_profile [OF none, of sampleEnv idle] complete show ?thesis
    by (auto simp: variant_defs sample_fields)
qed

text \<open>
  Claim C7 as it is stated has the error be of kind NotFound or Malformed. The error that
  the code returns for the unknown profile has no kind.
\<close>

theorem unknown_profile_kind_counterexample:
  "fst (IssueCertificate sampleEnv sampleCA unknownRequest idle)
   = Inl (GoError ''the CA is incapable of using a profile named nosuch'' [])
   \<and> \<not> errors_Is (GoError ''the CA is incapable of using a profile named nosuch'' [])
          (BoulderErrorType NotFound)
   \<and> \<not> errors_Is (GoError ''the CA is incapable of using a profile named nosuch'' [])
          (BoulderErrorType Malformed)"
  by (simp add: run_defs sample_fields variant_defs Errorf_def)

section \<open>The names of the issuance request\<close>














end
